theory Spec2Isabelle
  imports Main "HOL-Library.Word" "HOL-Library.Monad_Syntax"
begin

section \<open>The 24x7 catalog parser (main.c)\<close>

text \<open>
  The program reads a catalog file, one 4096-byte header page and three tables of
  variable-length records (schema, group, event), checks every record against the end of
  its table and against its own length field, and prints the accepted records.

  Pointers into a table are modelled as byte offsets from the start of the table's
  buffer (type \<open>nat\<close>); the table's \<open>end\<close> pointer is the buffer's length. All lengths and
  offsets of the format are 16-bit fields, tables are at most 65535 pages long, so none
  of the program's \<open>unsigned\<close> or \<open>size_t\<close> sums and products wraps and \<open>nat\<close> arithmetic is
  exact. A read of a byte at or beyond the end of the buffer is undefined behaviour in C:
  every reading function returns \<open>None\<close> there.
\<close>

subsection \<open>Bytes and big-endian fields\<close>

type_synonym byte = "8 word"

type_synonym buffer = "byte list"

definition rd_u8 :: "buffer \<Rightarrow> nat \<Rightarrow> nat option" where
  "rd_u8 buf p = (if p < length buf then Some (unat (buf ! p)) else None)"

text \<open>\<open>be_to_cpu\<close> of a \<open>__be16\<close> field stored at offset \<open>p\<close>.\<close>

definition rd_be16 :: "buffer \<Rightarrow> nat \<Rightarrow> nat option" where
  "rd_be16 buf p =
     (case rd_u8 buf p of
        None \<Rightarrow> None
      | Some hi \<Rightarrow>
          (case rd_u8 buf (p + 1) of
             None \<Rightarrow> None
           | Some lo \<Rightarrow> Some (hi * 256 + lo)))"

text \<open>Reading \<open>n\<close> consecutive bytes from offset \<open>p\<close> (a counted byte string).\<close>

definition rd_bytes :: "buffer \<Rightarrow> nat \<Rightarrow> nat \<Rightarrow> buffer option" where
  "rd_bytes buf p n = (if p + n \<le> length buf then Some (take n (drop p buf)) else None)"

text \<open>
  What \<open>fprintf("%.*s", n, p)\<close> reads and prints: the bytes from \<open>p\<close> up to the first
  NUL byte, at most \<open>n\<close> of them.
\<close>

fun rd_strn :: "buffer \<Rightarrow> nat \<Rightarrow> nat \<Rightarrow> buffer option" where
  "rd_strn buf p 0 = Some []"
| "rd_strn buf p (Suc n) =
     (if p < length buf
      then (if buf ! p = 0 then Some []
            else (case rd_strn buf (Suc p) n of
                    None \<Rightarrow> None
                  | Some bs \<Rightarrow> Some (buf ! p # bs)))
      else None)"

subsection \<open>Structure layouts\<close>

text \<open>
  The header \<open>hv-24x7-catalog.h\<close>, which declares the packed structures, is not part of
  the sources at hand. The offsets and sizes that \<open>main.c\<close> takes from it
  (\<open>offsetof\<close>, \<open>sizeof\<close>, and the position of every field it reads) are therefore a
  parameter of the model. Length, offset, index and count fields are 16 bits wide and
  big-endian; \<open>domain\<close> is one byte.
\<close>

record layout =
  p0_schema_data_offs :: nat
  p0_schema_data_len :: nat
  p0_schema_entry_count :: nat
  p0_event_data_offs :: nat
  p0_event_data_len :: nat
  p0_event_entry_count :: nat
  p0_group_data_offs :: nat
  p0_group_data_len :: nat
  p0_group_entry_count :: nat
  p0_formula_data_offs :: nat
  p0_formula_data_len :: nat
  p0_formula_entry_count :: nat
  grs_length :: nat
  grs_field_entry_count :: nat
  grs_field_entrys :: nat
  grs_sizeof :: nat
  grs_field_entry_sizeof :: nat
  grs_field_sizeof :: nat
  gr_length :: nat
  gr_domain :: nat
  gr_group_name_len :: nat
  gr_remainder :: nat
  gr_sizeof :: nat
  ev_length :: nat
  ev_domain :: nat
  ev_event_group_record_offs :: nat
  ev_event_group_record_len :: nat
  ev_event_counter_offs :: nat
  ev_primary_group_ix :: nat
  ev_event_name_len :: nat
  ev_remainder :: nat

text \<open>
  \<open>grs_field_entrys\<close> is \<open>offsetof(struct hv_24x7_grs, field_entrys)\<close>,
  \<open>grs_field_entry_sizeof\<close> is \<open>sizeof(schema->field_entrys[0])\<close>,
  \<open>grs_field_sizeof\<close> is \<open>sizeof(struct hv_24x7_grs_field)\<close>,
  \<open>gr_sizeof\<close> and \<open>grs_sizeof\<close> are \<open>sizeof\<close> of the group and schema structures,
  \<open>gr_remainder\<close> and \<open>ev_remainder\<close> are the offsets of the flexible \<open>remainder\<close> arrays.

  A layout is well formed when every field the program reads from the fixed portion of a
  record lies inside that fixed portion, and the name length is the last fixed field: the
  two bytes just before \<open>remainder\<close> (the code finds the next length word at
  \<open>remainder + nl - 2\<close>).
\<close>

definition wf_event_layout :: "layout \<Rightarrow> bool" where
  "wf_event_layout L \<longleftrightarrow>
     ev_length L + 2 \<le> ev_remainder L \<and>
     ev_domain L + 1 \<le> ev_remainder L \<and>
     ev_event_group_record_offs L + 2 \<le> ev_remainder L \<and>
     ev_event_group_record_len L + 2 \<le> ev_remainder L \<and>
     ev_event_counter_offs L + 2 \<le> ev_remainder L \<and>
     ev_primary_group_ix L + 2 \<le> ev_remainder L \<and>
     ev_event_name_len L + 2 = ev_remainder L"

definition wf_group_layout :: "layout \<Rightarrow> bool" where
  "wf_group_layout L \<longleftrightarrow>
     gr_length L + 2 \<le> gr_sizeof L \<and>
     gr_domain L + 1 \<le> gr_sizeof L \<and>
     gr_group_name_len L + 2 = gr_remainder L \<and>
     gr_remainder L = gr_sizeof L"

definition wf_schema_layout :: "layout \<Rightarrow> bool" where
  "wf_schema_layout L \<longleftrightarrow>
     grs_length L + 2 \<le> grs_sizeof L \<and>
     grs_field_entry_count L + 2 \<le> grs_sizeof L \<and>
     grs_field_entrys L = grs_sizeof L"

text \<open>
  The layout of the structures as the Linux kernel publishes them
  (\<open>arch/powerpc/perf/hv-24x7-catalog.h\<close>, all structures packed): the instance at which
  the theorems below are evaluated.
\<close>

definition hv_24x7_layout :: layout where
  "hv_24x7_layout =
     \<lparr> p0_schema_data_offs = 64, p0_schema_data_len = 66, p0_schema_entry_count = 68,
       p0_event_data_offs = 72, p0_event_data_len = 74, p0_event_entry_count = 76,
       p0_group_data_offs = 80, p0_group_data_len = 82, p0_group_entry_count = 84,
       p0_formula_data_offs = 88, p0_formula_data_len = 90, p0_formula_entry_count = 92,
       grs_length = 0, grs_field_entry_count = 14, grs_field_entrys = 16,
       grs_sizeof = 16, grs_field_entry_sizeof = 1, grs_field_sizeof = 8,
       gr_length = 0, gr_domain = 8, gr_group_name_len = 48, gr_remainder = 50,
       gr_sizeof = 50,
       ev_length = 0, ev_domain = 4, ev_event_group_record_offs = 6,
       ev_event_group_record_len = 8, ev_event_counter_offs = 10,
       ev_primary_group_ix = 16, ev_event_name_len = 20, ev_remainder = 22 \<rparr>"

subsection \<open>Domains\<close>

text \<open>
  Modelled from the spec: the X-macro table \<open>hv-24x7-domains.h\<close> is not part of the sources
  at hand. The spec names six domains (physical chip, physical core, virtual-processor
  home core, home chip, home node, remote node); the sample output of the README gives
  codes 2 to 6 and their starting-index labels, and physical chip is the remaining code 1
  with label \<open>chip\<close>.
\<close>

definition HV_PERF_DOMAIN_PHYSICAL_CHIP :: nat where
  "HV_PERF_DOMAIN_PHYSICAL_CHIP = 1"

definition HV_PERF_DOMAIN_PHYSICAL_CORE :: nat where
  "HV_PERF_DOMAIN_PHYSICAL_CORE = 2"

definition HV_PERF_DOMAIN_VIRTUAL_PROCESSOR_HOME_CORE :: nat where
  "HV_PERF_DOMAIN_VIRTUAL_PROCESSOR_HOME_CORE = 3"

definition HV_PERF_DOMAIN_VIRTUAL_PROCESSOR_HOME_CHIP :: nat where
  "HV_PERF_DOMAIN_VIRTUAL_PROCESSOR_HOME_CHIP = 4"

definition HV_PERF_DOMAIN_VIRTUAL_PROCESSOR_HOME_NODE :: nat where
  "HV_PERF_DOMAIN_VIRTUAL_PROCESSOR_HOME_NODE = 5"

definition HV_PERF_DOMAIN_VIRTUAL_PROCESSOR_REMOTE_NODE :: nat where
  "HV_PERF_DOMAIN_VIRTUAL_PROCESSOR_REMOTE_NODE = 6"

definition is_physical_domain :: "nat \<Rightarrow> bool" where
  "is_physical_domain domain \<longleftrightarrow>
     domain = HV_PERF_DOMAIN_PHYSICAL_CHIP \<or> domain = HV_PERF_DOMAIN_PHYSICAL_CORE"

subsection \<open>Output\<close>

text \<open>
  What the program writes, in order, as structured items instead of formatted text
  (the column layout of the text is presentation). \<open>Warnx\<close> is a \<open>warnx\<close> message on
  standard error and \<open>PrDebug l m\<close> is the call \<open>pr_debug(l, m)\<close>, which the debugging
  library prints or drops according to its verbosity level; both carry the format string
  of the call, without a newline at its end. \<open>EventLine\<close> is the line
  \<open>domain=0x%x,offset=0x%x,starting_index=%s,lpar=%s\<close>. The dumps carry the text that
  \<open>domain_to_string\<close> produced, the bytes of the record's fixed portion, from which the
  numeric fields are printed, and the byte strings handed to \<open>print_bytes_as_cstring_\<close>.
\<close>

datatype domain_text = DomainName string | UnknownDomain nat

datatype out_item =
    Warnx string
  | PrDebug nat string
  | Misaligned
  | SchemaComment nat nat nat nat
  | SchemaDump buffer "buffer list"
  | GroupDump domain_text buffer buffer buffer
  | EventComment nat nat nat nat
  | EventName buffer
  | EventLine nat nat string string
  | EventDump domain_text buffer buffer buffer buffer buffer
  | HexDump buffer

definition domain_to_index_string :: "nat \<Rightarrow> string \<times> out_item list" where
  "domain_to_index_string domain =
     (if domain = HV_PERF_DOMAIN_PHYSICAL_CHIP then (''chip'', [])
      else if domain = HV_PERF_DOMAIN_PHYSICAL_CORE then (''core'', [])
      else if domain = HV_PERF_DOMAIN_VIRTUAL_PROCESSOR_HOME_CORE then (''vcpu'', [])
      else if domain = HV_PERF_DOMAIN_VIRTUAL_PROCESSOR_HOME_CHIP then (''vcpu'', [])
      else if domain = HV_PERF_DOMAIN_VIRTUAL_PROCESSOR_HOME_NODE then (''vcpu'', [])
      else if domain = HV_PERF_DOMAIN_VIRTUAL_PROCESSOR_REMOTE_NODE then (''vcpu'', [])
      else (''unknown'', [Warnx ''unknown domain %d'']))"

text \<open>
  \<open>domain_to_string\<close> writes the name of a domain into a buffer of \<open>buf_len\<close> bytes. For a
  domain of the table it copies \<open>max(strlen(name), buf_len)\<close> bytes with \<open>memcpy\<close> from the
  string literal, which has \<open>strlen(name) + 1\<close> bytes: the copy stays inside the literal and
  the buffer, and leaves a terminated string, only when that number is greater than the
  length of the name, at most the size of the literal and at most \<open>buf_len\<close>; otherwise
  the behaviour is undefined. For any other domain it prints \<open>unknown[%d]\<close> with
  \<open>snprintf\<close>. The names are the first arguments of the table's entries, which
  \<open>main.c\<close> uses as \<open>HV_PERF_DOMAIN_\<close> constants.
\<close>

definition domain_name :: "nat \<Rightarrow> string option" where
  "domain_name domain =
     (if domain = HV_PERF_DOMAIN_PHYSICAL_CHIP then Some ''PHYSICAL_CHIP''
      else if domain = HV_PERF_DOMAIN_PHYSICAL_CORE then Some ''PHYSICAL_CORE''
      else if domain = HV_PERF_DOMAIN_VIRTUAL_PROCESSOR_HOME_CORE
        then Some ''VIRTUAL_PROCESSOR_HOME_CORE''
      else if domain = HV_PERF_DOMAIN_VIRTUAL_PROCESSOR_HOME_CHIP
        then Some ''VIRTUAL_PROCESSOR_HOME_CHIP''
      else if domain = HV_PERF_DOMAIN_VIRTUAL_PROCESSOR_HOME_NODE
        then Some ''VIRTUAL_PROCESSOR_HOME_NODE''
      else if domain = HV_PERF_DOMAIN_VIRTUAL_PROCESSOR_REMOTE_NODE
        then Some ''VIRTUAL_PROCESSOR_REMOTE_NODE''
      else None)"

definition domain_to_string :: "nat \<Rightarrow> nat \<Rightarrow> domain_text option" where
  "domain_to_string domain buf_len =
     (case domain_name domain of
        Some n \<Rightarrow>
          (let l = max (length n) buf_len
           in if length n < l \<and> l \<le> length n + 1 \<and> l \<le> buf_len then Some (DomainName n)
              else None)
      | None \<Rightarrow> Some (UnknownDomain domain))"

subsection \<open>Events: string accessors and bounds checks\<close>

text \<open>
  The accessors return the pointer to the payload and its length. The length is computed
  as \<open>be_to_cpu(len) - 2\<close> and stored in a \<open>size_t\<close> (64 bits), so a length word
  below 2 wraps.
\<close>

definition size_t_minus2 :: "nat \<Rightarrow> nat" where
  "size_t_minus2 l = (l + 2 ^ 64 - 2) mod 2 ^ 64"

definition event_name :: "layout \<Rightarrow> buffer \<Rightarrow> nat \<Rightarrow> (nat \<times> nat) option" where
  "event_name L buf ev =
     (case rd_be16 buf (ev + ev_event_name_len L) of
        None \<Rightarrow> None
      | Some nl \<Rightarrow> Some (ev + ev_remainder L, size_t_minus2 nl))"

definition event_desc :: "layout \<Rightarrow> buffer \<Rightarrow> nat \<Rightarrow> (nat \<times> nat) option" where
  "event_desc L buf ev =
     (case rd_be16 buf (ev + ev_event_name_len L) of
        None \<Rightarrow> None
      | Some nl \<Rightarrow>
          (case rd_be16 buf (ev + ev_remainder L + nl - 2) of
             None \<Rightarrow> None
           | Some dl \<Rightarrow> Some (ev + ev_remainder L + nl, size_t_minus2 dl)))"

definition event_long_desc :: "layout \<Rightarrow> buffer \<Rightarrow> nat \<Rightarrow> (nat \<times> nat) option" where
  "event_long_desc L buf ev =
     (case rd_be16 buf (ev + ev_event_name_len L) of
        None \<Rightarrow> None
      | Some nl \<Rightarrow>
          (case rd_be16 buf (ev + ev_remainder L + nl - 2) of
             None \<Rightarrow> None
           | Some desc_len \<Rightarrow>
               (case rd_be16 buf (ev + ev_remainder L + nl + desc_len - 2) of
                  None \<Rightarrow> None
                | Some ldl \<Rightarrow>
                    Some (ev + ev_remainder L + nl + desc_len, size_t_minus2 ldl))))"

definition event_fixed_portion_is_within :: "layout \<Rightarrow> nat \<Rightarrow> nat \<Rightarrow> bool" where
  "event_fixed_portion_is_within L ev endp \<longleftrightarrow> ev + ev_remainder L < endp"

text \<open>
  \<open>event_is_within\<close> returns the function's result together with the messages it
  writes; \<open>None\<close> is a read beyond the buffer. The alignment tests look at the address of
  a length word (\<open>dl_\<close> and \<open>ldl_\<close> in the source). \<open>malloc\<close> returns memory aligned for
  every type, so the buffer starts at an even address and the address of a length word is
  even exactly when its offset is. The read of a length word at an odd address delivers
  its two bytes, as it does on the machines the program is written for.
\<close>

definition event_is_within ::
  "layout \<Rightarrow> buffer \<Rightarrow> nat \<Rightarrow> nat \<Rightarrow> (bool \<times> out_item list) option" where
  "event_is_within L buf ev endp =
     (case rd_be16 buf (ev + ev_event_name_len L) of
        None \<Rightarrow> None
      | Some nl \<Rightarrow>
          if nl < 2 then Some (False, [PrDebug 1 ''%s: name length too short: %d''])
          else if ev + nl > endp
            then Some (False, [PrDebug 1 ''%s: start=%p + nl=%u > end=%p''])
          else
            (let dl_p = ev + ev_remainder L + nl - 2;
                 w1 = (if dl_p mod 2 \<noteq> 0 then [Warnx ''desc len not aligned %p''] else [])
             in case rd_be16 buf dl_p of
                  None \<Rightarrow> None
                | Some dl \<Rightarrow>
                    if dl < 2
                      then Some (False, w1 @ [PrDebug 1 ''%s: desc len too short: %d''])
                    else if ev + nl + dl > endp
                      then Some (False,
                             w1 @ [PrDebug 1 ''%s: (start=%p + nl=%u + dl=%u)=%p > end=%p''])
                    else
                      (let ldl_p = ev + ev_remainder L + nl + dl - 2;
                           w2 = (if ldl_p mod 2 \<noteq> 0
                                 then [Warnx ''long desc len not aligned %p''] else [])
                       in case rd_be16 buf ldl_p of
                            None \<Rightarrow> None
                          | Some ldl \<Rightarrow>
                              if ldl < 2
                                then Some (False,
                                       w1 @ w2 @
                                       [PrDebug 1 ''%s: long desc len too short (ldl=%u)''])
                              else if ev + nl + dl + ldl > endp
                                then Some (False,
                                       w1 @ w2 @
                                       [PrDebug 1
                                          ''%s: start=%p + nl=%u + dl=%u + ldl=%u > end=%p''])
                              else Some (True, w1 @ w2))))"

subsection \<open>Events: rendering\<close>

definition print_event_fmt :: "layout \<Rightarrow> buffer \<Rightarrow> nat \<Rightarrow> nat \<Rightarrow> out_item list option" where
  "print_event_fmt L buf event domain =
     (let lpar = (if is_physical_domain domain then ''0x0'' else ''sibling_guest_id'') in
      case rd_be16 buf (event + ev_event_counter_offs L) of
        None \<Rightarrow> None
      | Some counter_offs \<Rightarrow>
          (case rd_be16 buf (event + ev_event_group_record_offs L) of
             None \<Rightarrow> None
           | Some group_record_offs \<Rightarrow>
               Some (snd (domain_to_index_string domain) @
                     [EventLine domain (counter_offs + group_record_offs)
                        (fst (domain_to_index_string domain)) lpar])))"

definition core_domains :: "nat list" where
  "core_domains =
     [HV_PERF_DOMAIN_PHYSICAL_CORE,
      HV_PERF_DOMAIN_VIRTUAL_PROCESSOR_HOME_CORE,
      HV_PERF_DOMAIN_VIRTUAL_PROCESSOR_HOME_CHIP,
      HV_PERF_DOMAIN_VIRTUAL_PROCESSOR_HOME_NODE,
      HV_PERF_DOMAIN_VIRTUAL_PROCESSOR_REMOTE_NODE]"

text \<open>The \<open>for\<close> loop over \<open>core_domains\<close>: one call of \<open>print_event_fmt\<close> per entry.\<close>

fun print_event_fmts :: "layout \<Rightarrow> buffer \<Rightarrow> nat \<Rightarrow> nat list \<Rightarrow> out_item list option" where
  "print_event_fmts L buf event [] = Some []"
| "print_event_fmts L buf event (d # ds) =
     (case print_event_fmt L buf event d of
        None \<Rightarrow> None
      | Some l \<Rightarrow>
          (case print_event_fmts L buf event ds of
             None \<Rightarrow> None
           | Some ls \<Rightarrow> Some (l @ ls)))"

text \<open>
  The name is printed with \<open>%.*s\<close> and the precision \<open>(int)nl\<close>. For a record that has
  passed the bounds check the length is below 65534 and the cast is exact; for a wrapped
  length the cast is negative, \<open>fprintf\<close> then reads up to the first NUL byte, and so does
  \<open>rd_strn\<close> with a bound beyond every buffer.
\<close>

definition print_event_for_all_domains :: "layout \<Rightarrow> buffer \<Rightarrow> nat \<Rightarrow> out_item list option" where
  "print_event_for_all_domains L buf event =
     (case event_name L buf event of
        None \<Rightarrow> None
      | Some (name, nl) \<Rightarrow>
          (case rd_strn buf name nl of
             None \<Rightarrow> None
           | Some s \<Rightarrow>
               (case rd_u8 buf (event + ev_domain L) of
                  None \<Rightarrow> None
                | Some domain \<Rightarrow>
                    (case (if domain = HV_PERF_DOMAIN_PHYSICAL_CHIP
                             then print_event_fmt L buf event domain
                           else if domain = HV_PERF_DOMAIN_PHYSICAL_CORE
                             then print_event_fmts L buf event core_domains
                           else Some [PrDebug 1 ''Whoops'']) of
                       None \<Rightarrow> None
                     | Some ls \<Rightarrow> Some (EventName s # ls)))))"

subsection \<open>Groups\<close>

definition group_name :: "layout \<Rightarrow> buffer \<Rightarrow> nat \<Rightarrow> (nat \<times> nat) option" where
  "group_name L buf grp =
     (case rd_be16 buf (grp + gr_group_name_len L) of
        None \<Rightarrow> None
      | Some nl \<Rightarrow> Some (grp + gr_remainder L, size_t_minus2 nl))"

definition group_desc :: "layout \<Rightarrow> buffer \<Rightarrow> nat \<Rightarrow> (nat \<times> nat) option" where
  "group_desc L buf grp =
     (case rd_be16 buf (grp + gr_group_name_len L) of
        None \<Rightarrow> None
      | Some nl \<Rightarrow>
          (case rd_be16 buf (grp + gr_remainder L + nl - 2) of
             None \<Rightarrow> None
           | Some dl \<Rightarrow> Some (grp + gr_remainder L + nl, size_t_minus2 dl)))"

definition group_fixed_portion_is_within :: "layout \<Rightarrow> nat \<Rightarrow> nat \<Rightarrow> bool" where
  "group_fixed_portion_is_within L grp endp \<longleftrightarrow> grp + gr_sizeof L < endp"

definition group_is_within ::
  "layout \<Rightarrow> buffer \<Rightarrow> nat \<Rightarrow> nat \<Rightarrow> (bool \<times> out_item list) option" where
  "group_is_within L buf grp endp =
     (case rd_be16 buf (grp + gr_group_name_len L) of
        None \<Rightarrow> None
      | Some nl \<Rightarrow>
          if nl < 2 then Some (False, [PrDebug 1 ''%s: name length too short: %d''])
          else if grp + nl > endp
            then Some (False, [PrDebug 1 ''%s: start=%p + nl=%u > end=%p''])
          else
            (case rd_be16 buf (grp + gr_remainder L + nl - 2) of
               None \<Rightarrow> None
             | Some dl \<Rightarrow>
                 if dl < 2 then Some (False, [PrDebug 1 ''%s: desc len too short: %d''])
                 else if grp + nl + dl > endp
                   then Some (False,
                          [PrDebug 1 ''%s: (start=%p + nl=%u + dl=%u)=%p > end=%p''])
                 else Some (True, [])))"

definition print_group :: "layout \<Rightarrow> buffer \<Rightarrow> nat \<Rightarrow> out_item list option" where
  "print_group L buf grp =
     (case rd_u8 buf (grp + gr_domain L) of
        None \<Rightarrow> None
      | Some domain \<Rightarrow>
          (case domain_to_string domain 1024 of
             None \<Rightarrow> None
           | Some dt \<Rightarrow>
               (case group_name L buf grp of
                  None \<Rightarrow> None
                | Some (name, name_len) \<Rightarrow>
                    (case group_desc L buf grp of
                       None \<Rightarrow> None
                     | Some (desc, desc_len) \<Rightarrow>
                         (case rd_bytes buf grp (gr_sizeof L) of
                            None \<Rightarrow> None
                          | Some fixed \<Rightarrow>
                              (case rd_bytes buf name name_len of
                                 None \<Rightarrow> None
                               | Some n \<Rightarrow>
                                   (case rd_bytes buf desc desc_len of
                                      None \<Rightarrow> None
                                    | Some d \<Rightarrow> Some [GroupDump dt fixed n d])))))))"

subsection \<open>The verbose event dump and the group index\<close>

text \<open>
  \<open>group_index\<close> is an array of \<open>group_entry_count\<close> pointers that \<open>malloc\<close> returns
  uninitialised; the group scan stores the pointer to the \<open>i\<close>-th accepted group in slot
  \<open>i\<close>. A slot is \<open>Some p\<close> once written and \<open>None\<close> while it is uninitialised; reading
  an uninitialised slot, or a slot beyond the array, is undefined behaviour (\<open>None\<close>).
  \<open>debug_is\<close>, the verbosity test of the debugging library, is a parameter.
\<close>

definition UNKNOWN :: buffer where
  "UNKNOWN = [0x55, 0x4E, 0x4B, 0x4E, 0x4F, 0x57, 0x4E]"

definition primary_group_name ::
  "layout \<Rightarrow> buffer \<Rightarrow> nat option list \<Rightarrow> nat \<Rightarrow> nat \<Rightarrow> buffer option" where
  "primary_group_name L group_data group_index group_count group_ix =
     (if group_ix \<ge> group_count then Some UNKNOWN
      else if group_ix < length group_index
      then (case group_index ! group_ix of
              None \<Rightarrow> None
            | Some grp \<Rightarrow>
                (case group_name L group_data grp of
                   None \<Rightarrow> None
                 | Some (name, name_len) \<Rightarrow> rd_bytes group_data name name_len))
      else None)"

definition print_event ::
  "layout \<Rightarrow> (nat \<Rightarrow> bool) \<Rightarrow> buffer \<Rightarrow> nat option list \<Rightarrow> nat \<Rightarrow> buffer \<Rightarrow> nat \<Rightarrow>
   out_item list option" where
  "print_event L debug_is group_data group_index group_count buf event =
     (case print_event_for_all_domains L buf event of
        None \<Rightarrow> None
      | Some lines \<Rightarrow>
          if \<not> debug_is 5 then Some lines
          else do {
            (name, name_len) \<leftarrow> event_name L buf event;
            (desc, desc_len) \<leftarrow> event_desc L buf event;
            (long_desc, long_desc_len) \<leftarrow> event_long_desc L buf event;
            group_ix \<leftarrow> rd_be16 buf (event + ev_primary_group_ix L);
            gn \<leftarrow> primary_group_name L group_data group_index group_count group_ix;
            domain \<leftarrow> rd_u8 buf (event + ev_domain L);
            dt \<leftarrow> domain_to_string domain 1024;
            fixed \<leftarrow> rd_bytes buf event (ev_remainder L);
            n \<leftarrow> rd_bytes buf name name_len;
            d \<leftarrow> rd_bytes buf desc desc_len;
            ld \<leftarrow> rd_bytes buf long_desc long_desc_len;
            hex \<leftarrow> (if debug_is 100
                    then do {
                      len \<leftarrow> rd_be16 buf (event + ev_length L);
                      bs \<leftarrow> rd_bytes buf event len;
                      Some [HexDump bs] }
                    else Some []);
            Some (lines @ [EventDump dt fixed gn n d ld] @ hex) })"

subsection \<open>Schemas\<close>

definition schema_fixed_portion_is_within :: "layout \<Rightarrow> nat \<Rightarrow> nat \<Rightarrow> bool" where
  "schema_fixed_portion_is_within L schema endp \<longleftrightarrow> schema + grs_sizeof L < endp"

definition schema_is_within ::
  "layout \<Rightarrow> buffer \<Rightarrow> nat \<Rightarrow> nat \<Rightarrow> (bool \<times> out_item list) option" where
  "schema_is_within L buf schema endp =
     (case rd_be16 buf (schema + grs_field_entry_count L) of
        None \<Rightarrow> None
      | Some field_entry_count \<Rightarrow>
          if field_entry_count = 0 then Some (False, [PrDebug 1 ''%s: no field entries''])
          else if schema + field_entry_count * grs_field_entry_sizeof L > endp
            then Some (False,
                   [PrDebug 1 ''%s: start=%p + field_entry_bytes=%zu > end=%p''])
          else Some (True, []))"

text \<open>
  The loop of \<open>print_schema\<close> over the field entries. It returns the entries printed (the
  bytes of each \<open>struct hv_24x7_grs_field\<close>), the padding message, and the final value
  of the loop counter \<open>i\<close>. The counter grows in every iteration and the loop stops when
  it reaches \<open>field_entry_count\<close>.
\<close>

function print_schema_fields ::
  "layout \<Rightarrow> buffer \<Rightarrow> nat \<Rightarrow> nat \<Rightarrow> nat \<Rightarrow> nat \<Rightarrow> nat \<Rightarrow>
   (buffer list \<times> out_item list \<times> nat) option" where
  "print_schema_fields L buf schema len field_entry_count field i =
     (if field - schema \<ge> len then Some ([], [], i)
      else if i \<ge> field_entry_count then Some ([], [PrDebug 1 ''schema has padding of %zu bytes''], i)
      else
        (case rd_bytes buf field (grs_field_sizeof L) of
           None \<Rightarrow> None
         | Some entry \<Rightarrow>
             (case print_schema_fields L buf schema len field_entry_count
                     (field + grs_field_sizeof L) (i + 1) of
                None \<Rightarrow> None
              | Some (entries, dbg, j) \<Rightarrow> Some (entry # entries, dbg, j))))"
  by pat_completeness auto
termination
  by (relation "measure (\<lambda>(L, buf, schema, len, field_entry_count, field, i).
                  field_entry_count - i)") auto

definition print_schema :: "layout \<Rightarrow> buffer \<Rightarrow> nat \<Rightarrow> out_item list option" where
  "print_schema L buf schema =
     (case rd_be16 buf (schema + grs_length L) of
        None \<Rightarrow> None
      | Some len \<Rightarrow>
          (case rd_be16 buf (schema + grs_field_entry_count L) of
             None \<Rightarrow> None
           | Some field_entry_count \<Rightarrow>
               (case rd_bytes buf schema (grs_sizeof L) of
                  None \<Rightarrow> None
                | Some fixed \<Rightarrow>
                    (case print_schema_fields L buf schema len field_entry_count
                            (schema + grs_field_entrys L) 0 of
                       None \<Rightarrow> None
                     | Some (entries, dbg, i) \<Rightarrow>
                         Some ([SchemaDump fixed entries] @ dbg @
                               (if i \<noteq> field_entry_count
                                then [Warnx ''schema ended before listed # of fields were parsed (got %zu, wanted %zu, offset %zu, length %zu)'']
                                else []))))))"

subsection \<open>The table scans\<close>

text \<open>
  Each scan is a \<open>for (i = 0; ; i++)\<close> loop that is left by \<open>break\<close>. One iteration is a
  function of the counter \<open>i\<close> and the current record pointer: it either breaks, with what
  it printed and the reason, or goes on to the next record. \<open>Undefined\<close> is the reason
  when a call of the iteration reads beyond the buffer: the behaviour of the program is
  undefined from there on and the model stops, with what the iteration wrote before that
  call.
\<close>

datatype stop =
    BufferEnd
  | CountReached
  | FixedPortion
  | EndsAfterTable
  | ExceedsTable
  | ExceedsOwnLength
  | Undefined

datatype 'a step = Break "out_item list" stop | Next "out_item list" 'a

record scan_result =
  final_i :: nat
  outputs :: "out_item list"
  stop_reason :: stop

definition printed :: "out_item list \<Rightarrow> scan_result \<Rightarrow> scan_result" where
  "printed outs r = r\<lparr>outputs := outs @ outputs r\<rparr>"

definition schema_body ::
  "layout \<Rightarrow> (nat \<Rightarrow> bool) \<Rightarrow> nat \<Rightarrow> buffer \<Rightarrow> nat \<Rightarrow> nat \<Rightarrow> nat step" where
  "schema_body L debug_is schema_entry_count buf i schema =
     (if \<not> schema_fixed_portion_is_within L schema (length buf)
        then Break [Warnx ''schema fixed portion is not within range''] FixedPortion
      else if schema \<ge> length buf then Break [] BufferEnd
      else if i \<ge> schema_entry_count
        then Break [PrDebug 2 ''schema count ends before buffer end (offset=%zu, bytes remaining=%zu)''] CountReached
      else if \<not> schema_fixed_portion_is_within L schema (length buf)
        then Break [Warnx ''schema fixed portion is not within range''] FixedPortion
      else
        (case rd_be16 buf (schema + grs_length L) of
           None \<Rightarrow> Break [] Undefined
         | Some schema_len \<Rightarrow>
             (let c = (if debug_is 1
                       then [SchemaComment i schema_entry_count schema_len schema] else []) @
                      (if schema_len mod 16 \<noteq> 0 then [Misaligned] else []);
                  schema_end = schema + schema_len
              in if schema_end > length buf
                   then Break (c @ [Warnx ''schema ends after schema data: schema_end=%p > end=%p'']) EndsAfterTable
                 else
                   (case schema_is_within L buf schema (length buf) of
                      None \<Rightarrow> Break c Undefined
                    | Some (False, m1) \<Rightarrow>
                        Break (c @ m1 @ [Warnx ''schema exceeds schema data length schema=%p end=%p''])
                          ExceedsTable
                    | Some (True, m1) \<Rightarrow>
                        (case schema_is_within L buf schema schema_end of
                           None \<Rightarrow> Break (c @ m1) Undefined
                         | Some (False, m2) \<Rightarrow>
                             Break (c @ m1 @ m2 @ [Warnx ''schema exceeds it's own length schema=%p end=%p''])
                               ExceedsOwnLength
                         | Some (True, m2) \<Rightarrow>
                             (case (if debug_is 1 then print_schema L buf schema
                                    else Some []) of
                                None \<Rightarrow> Break (c @ m1 @ m2) Undefined
                              | Some d \<Rightarrow>
                                  Next (c @ m1 @ m2 @ d) (schema + schema_len)))))))"

function schema_loop ::
  "layout \<Rightarrow> (nat \<Rightarrow> bool) \<Rightarrow> nat \<Rightarrow> buffer \<Rightarrow> nat \<Rightarrow> nat \<Rightarrow> scan_result" where
  "schema_loop L debug_is n buf i schema =
     (case schema_body L debug_is n buf i schema of
        Break outs s \<Rightarrow> \<lparr>final_i = i, outputs = outs, stop_reason = s\<rparr>
      | Next outs schema' \<Rightarrow> printed outs (schema_loop L debug_is n buf (i + 1) schema'))"
  by pat_completeness auto
termination
  by (relation "measure (\<lambda>(L, debug_is, n, buf, i, schema). n - i)")
     (auto simp: schema_body_def Let_def split: if_splits option.splits bool.splits)

definition schema_scan :: "layout \<Rightarrow> (nat \<Rightarrow> bool) \<Rightarrow> nat \<Rightarrow> buffer \<Rightarrow> scan_result" where
  "schema_scan L debug_is schema_entry_count schema_data =
     schema_loop L debug_is schema_entry_count schema_data 0 0"

text \<open>
  The group scan also fills \<open>group_index\<close>: slot \<open>i\<close> receives the pointer to record
  \<open>i\<close> once the record has passed every check.
\<close>

definition group_body ::
  "layout \<Rightarrow> (nat \<Rightarrow> bool) \<Rightarrow> nat \<Rightarrow> buffer \<Rightarrow> nat \<Rightarrow> nat \<times> nat option list \<Rightarrow>
   (nat \<times> nat option list) step" where
  "group_body L debug_is group_entry_count buf i st =
     (case st of (grp, group_index) \<Rightarrow>
      if \<not> group_fixed_portion_is_within L grp (length buf)
        then Break [Warnx ''group fixed portion is not within range''] FixedPortion
      else if grp \<ge> length buf then Break [] BufferEnd
      else if i \<ge> group_entry_count
        then Break [PrDebug 2 ''group count ends before buffer end (offset=%zu, bytes remaining=%zu)''] CountReached
      else if \<not> group_fixed_portion_is_within L grp (length buf)
        then Break [Warnx ''group fixed portion is not within range''] FixedPortion
      else
        (case rd_be16 buf (grp + gr_length L) of
           None \<Rightarrow> Break [] Undefined
         | Some group_len \<Rightarrow>
             (let c = [PrDebug 1 ''/* group %zu of %u: len=%zu offset=%zu */''] @
                      (if group_len mod 16 \<noteq> 0 then [Misaligned] else []);
                  group_end = grp + group_len
              in if group_end > length buf
                   then Break (c @ [Warnx ''group ends after group data: group_end=%p > end=%p'']) EndsAfterTable
                 else
                   (case group_is_within L buf grp (length buf) of
                      None \<Rightarrow> Break c Undefined
                    | Some (False, m1) \<Rightarrow>
                        Break (c @ m1 @ [Warnx ''group exceeds group data length group=%p end=%p''])
                          ExceedsTable
                    | Some (True, m1) \<Rightarrow>
                        (case group_is_within L buf grp group_end of
                           None \<Rightarrow> Break (c @ m1) Undefined
                         | Some (False, m2) \<Rightarrow>
                             Break (c @ m1 @ m2 @ [Warnx ''group exceeds it's own length group=%p end=%p''])
                               ExceedsOwnLength
                         | Some (True, m2) \<Rightarrow>
                             if \<not> i < length group_index then Break (c @ m1 @ m2) Undefined
                             else
                               (case (if debug_is 1 then print_group L buf grp
                                      else Some []) of
                                  None \<Rightarrow> Break (c @ m1 @ m2) Undefined
                                | Some d \<Rightarrow>
                                    Next (c @ m1 @ m2 @ d)
                                      (grp + group_len, group_index[i := Some grp])))))))"

function group_loop ::
  "layout \<Rightarrow> (nat \<Rightarrow> bool) \<Rightarrow> nat \<Rightarrow> buffer \<Rightarrow> nat \<Rightarrow> nat \<times> nat option list \<Rightarrow>
   scan_result \<times> nat option list" where
  "group_loop L debug_is n buf i st =
     (case group_body L debug_is n buf i st of
        Break outs s \<Rightarrow> (\<lparr>final_i = i, outputs = outs, stop_reason = s\<rparr>, snd st)
      | Next outs st' \<Rightarrow>
          (case group_loop L debug_is n buf (i + 1) st' of
             (r, group_index) \<Rightarrow> (printed outs r, group_index)))"
  by pat_completeness auto
termination
  by (relation "measure (\<lambda>(L, debug_is, n, buf, i, st). n - i)")
     (auto simp: group_body_def Let_def split: if_splits option.splits bool.splits)

definition group_scan ::
  "layout \<Rightarrow> (nat \<Rightarrow> bool) \<Rightarrow> nat \<Rightarrow> buffer \<Rightarrow> scan_result \<times> nat option list" where
  "group_scan L debug_is group_entry_count group_data =
     group_loop L debug_is group_entry_count group_data 0
       (0, replicate group_entry_count None)"

text \<open>
  Modelled from the spec: \<open>PTR_ALIGN\<close> comes from a header that is not part of the sources
  at hand. It rounds a pointer up to the next multiple of the alignment, the page
  boundary that the event scan warns about; \<open>base\<close> is the address of the event buffer
  and the result is again an offset into the buffer.
\<close>

definition PTR_ALIGN :: "nat \<Rightarrow> nat \<Rightarrow> nat \<Rightarrow> nat" where
  "PTR_ALIGN base p a = ((base + p + (a - 1)) div a) * a - base"

text \<open>
  The event scan. Its context is the group buffer, the group index and the group count
  that \<open>print_event\<close> receives, and the address of the event buffer.
\<close>

record event_context =
  ctx_group_data :: buffer
  ctx_group_index :: "nat option list"
  ctx_group_count :: nat
  ctx_event_base :: nat

definition event_body ::
  "layout \<Rightarrow> (nat \<Rightarrow> bool) \<Rightarrow> event_context \<Rightarrow> nat \<Rightarrow> buffer \<Rightarrow> nat \<Rightarrow> nat \<Rightarrow> nat step" where
  "event_body L debug_is ctx event_entry_count buf i event =
     (if event \<ge> length buf then Break [] BufferEnd
      else if i \<ge> event_entry_count
        then Break [PrDebug 2 ''event count ends before buffer end (offset=%zu, end=%zu bytes remaining=%zu)''] CountReached
      else if \<not> event_fixed_portion_is_within L event (length buf)
        then Break [Warnx ''event fixed portion is not within range''] FixedPortion
      else
        (case rd_be16 buf (event + ev_length L) of
           None \<Rightarrow> Break [] Undefined
         | Some ev_len \<Rightarrow>
             (case rd_be16 buf (event + ev_event_group_record_len L) of
                None \<Rightarrow> Break [] Undefined
              | Some event_group_record_len \<Rightarrow>
                  if event_group_record_len = 0
                    then Next [PrDebug 10 ''invalid event, skipping''] (event + ev_len)
                  else
                    (let c = [EventComment i event_entry_count ev_len event] @
                             (if ev_len mod 16 \<noteq> 0 then [Misaligned] else []);
                         ev_end = event + ev_len
                     in if ev_end > length buf
                          then Break (c @ [Warnx ''event ends after event data: ev_end=%p > end=%p''])
                                 EndsAfterTable
                        else
                          (case event_is_within L buf event (length buf) of
                             None \<Rightarrow> Break c Undefined
                           | Some (False, m1) \<Rightarrow>
                               Break (c @ m1 @ [Warnx ''event exceeds event data length event=%p end=%p''])
                                 ExceedsTable
                           | Some (True, m1) \<Rightarrow>
                               (case event_is_within L buf event ev_end of
                                  None \<Rightarrow> Break (c @ m1) Undefined
                                | Some (False, m2) \<Rightarrow>
                                    Break (c @ m1 @ m2 @
                                           [Warnx ''event exceeds it's own length event=%p end=%p''])
                                      ExceedsOwnLength
                                | Some (True, m2) \<Rightarrow>
                                    (case event_is_within L buf event
                                            (PTR_ALIGN (ctx_event_base ctx) event 4096) of
                                       None \<Rightarrow> Break (c @ m1 @ m2) Undefined
                                     | Some (w, m3) \<Rightarrow>
                                         (let p = c @ m1 @ m2 @ m3 @
                                                  (if w then []
                                                   else [Warnx ''event crosses page boundary''])
                                          in case print_event L debug_is (ctx_group_data ctx)
                                                    (ctx_group_index ctx) (ctx_group_count ctx)
                                                    buf event of
                                               None \<Rightarrow> Break p Undefined
                                             | Some d \<Rightarrow> Next (p @ d) (event + ev_len)))))))))"

function event_loop ::
  "layout \<Rightarrow> (nat \<Rightarrow> bool) \<Rightarrow> event_context \<Rightarrow> nat \<Rightarrow> buffer \<Rightarrow> nat \<Rightarrow> nat \<Rightarrow> scan_result" where
  "event_loop L debug_is ctx n buf i event =
     (case event_body L debug_is ctx n buf i event of
        Break outs s \<Rightarrow> \<lparr>final_i = i, outputs = outs, stop_reason = s\<rparr>
      | Next outs event' \<Rightarrow> printed outs (event_loop L debug_is ctx n buf (i + 1) event'))"
  by pat_completeness auto
termination
  by (relation "measure (\<lambda>(L, debug_is, ctx, n, buf, i, event). n - i)")
     (auto simp: event_body_def Let_def split: if_splits option.splits bool.splits)

text \<open>After the loop the event scan compares the counter with the declared count.\<close>

definition count_mismatch :: out_item where
  "count_mismatch = Warnx ''event buffer ended before listed # of events were parsed (got %zu, wanted %u)''"

definition event_scan ::
  "layout \<Rightarrow> (nat \<Rightarrow> bool) \<Rightarrow> event_context \<Rightarrow> nat \<Rightarrow> buffer \<Rightarrow> scan_result" where
  "event_scan L debug_is ctx event_entry_count event_data =
     (let r = event_loop L debug_is ctx event_entry_count event_data 0 0
      in if stop_reason r = Undefined then r
         else if final_i r \<noteq> event_entry_count
           then r\<lparr>outputs := outputs r @ [count_mismatch]\<rparr>
         else r)"

subsection \<open>The program\<close>

text \<open>
  The input is the content of the catalog file. \<open>fread\<close> of \<open>n\<close> bytes at position
  \<open>pos\<close> delivers the bytes the file has there, fewer than \<open>n\<close> at the end of the file;
  \<open>fseek\<close> to a position of a regular file succeeds. Opening the file, the command line
  and allocation failures are outside the model. The program ends with the status of
  \<open>err\<close> (1 for a short page 0, 3 for a short table; the status stands for the call with
  its message), with 0 after the three scans, or in undefined behaviour.

  The buffers of the schema and event tables are allocated with the number of bytes that
  is read into them. The buffer of the group table is allocated with
  \<open>malloc(group_data_len)\<close>, the number of pages, and \<open>fread\<close> is then asked for
  \<open>group_data_len * 4096\<close> bytes: when it delivers more bytes than the buffer has, it
  writes beyond the buffer and the behaviour is undefined.
\<close>

datatype exit_status = Exit nat | Undefined_behaviour

definition fread_at :: "buffer \<Rightarrow> nat \<Rightarrow> nat \<Rightarrow> buffer" where
  "fread_at file pos n = take n (drop pos file)"

record page_0 =
  schema_data_offs :: nat
  schema_data_len :: nat
  schema_entry_count :: nat
  event_data_offs :: nat
  event_data_len :: nat
  event_entry_count :: nat
  group_data_offs :: nat
  group_data_len :: nat
  group_entry_count :: nat
  formula_data_offs :: nat
  formula_data_len :: nat
  formula_entry_count :: nat

definition read_page_0 :: "layout \<Rightarrow> buffer \<Rightarrow> page_0 option" where
  "read_page_0 L buf =
     do {
       so \<leftarrow> rd_be16 buf (p0_schema_data_offs L);
       sl \<leftarrow> rd_be16 buf (p0_schema_data_len L);
       sc \<leftarrow> rd_be16 buf (p0_schema_entry_count L);
       eo \<leftarrow> rd_be16 buf (p0_event_data_offs L);
       el \<leftarrow> rd_be16 buf (p0_event_data_len L);
       ec \<leftarrow> rd_be16 buf (p0_event_entry_count L);
       go \<leftarrow> rd_be16 buf (p0_group_data_offs L);
       gl \<leftarrow> rd_be16 buf (p0_group_data_len L);
       gc \<leftarrow> rd_be16 buf (p0_group_entry_count L);
       fo \<leftarrow> rd_be16 buf (p0_formula_data_offs L);
       fl \<leftarrow> rd_be16 buf (p0_formula_data_len L);
       fc \<leftarrow> rd_be16 buf (p0_formula_entry_count L);
       Some \<lparr> schema_data_offs = so, schema_data_len = sl, schema_entry_count = sc,
              event_data_offs = eo, event_data_len = el, event_entry_count = ec,
              group_data_offs = go, group_data_len = gl, group_entry_count = gc,
              formula_data_offs = fo, formula_data_len = fl, formula_entry_count = fc \<rparr>
     }"

text \<open>
  The debugging calls of \<open>main\<close> before page 0 is read (the size of the header structure
  and the file name), and those on the header: magic, length, build time stamp and
  version, which lie in page 0, and the twelve numbers read from it. The strings are the
  format strings after the expansion of \<open>pr_sz\<close> and \<open>pr_u\<close>; \<open>PRIu64\<close> stands for
  the macro of that name.
\<close>

definition start_debug :: "out_item list" where
  "start_debug =
     [PrDebug 9 ''sizeof(struct hv_24x7_catalog_page_0) = %zu'',
      PrDebug 5 ''filename = %s'']"

definition header_debug :: "out_item list" where
  "header_debug =
     [PrDebug 1 ''magic  = %.*s'',
      PrDebug 1 ''length = %zu pages'',
      PrDebug 1 ''build_time_stamp = %.*s'',
      PrDebug 1 ''version = %PRIu64'',
      PrDebug 1 ''schema_data_offs = %u'',
      PrDebug 1 ''schema_data_len = %u'',
      PrDebug 1 ''schema_entry_count = %u'',
      PrDebug 1 ''event_data_offs = %u'',
      PrDebug 1 ''event_data_len = %u'',
      PrDebug 1 ''event_entry_count = %u'',
      PrDebug 1 ''group_data_offs = %u'',
      PrDebug 1 ''group_data_len = %u'',
      PrDebug 1 ''group_entry_count = %u'',
      PrDebug 1 ''formula_data_offs = %u'',
      PrDebug 1 ''formula_data_len = %u'',
      PrDebug 1 ''formula_entry_count = %u'']"

text \<open>
  The three tables as the program reads them from the file. \<open>main\<close> is one function in
  the source; here its part from the group table on is \<open>scan_groups\<close> and its part from
  the event table on is \<open>scan_events\<close>, each taking what has been printed before it.
\<close>

definition schema_table :: "page_0 \<Rightarrow> buffer \<Rightarrow> buffer" where
  "schema_table h file = fread_at file (4096 * schema_data_offs h) (schema_data_len h * 4096)"

definition group_table :: "page_0 \<Rightarrow> buffer \<Rightarrow> buffer" where
  "group_table h file = fread_at file (4096 * group_data_offs h) (group_data_len h * 4096)"

definition event_table :: "page_0 \<Rightarrow> buffer \<Rightarrow> buffer" where
  "event_table h file = fread_at file (4096 * event_data_offs h) (event_data_len h * 4096)"

definition scan_events ::
  "layout \<Rightarrow> (nat \<Rightarrow> bool) \<Rightarrow> nat \<Rightarrow> page_0 \<Rightarrow> buffer \<Rightarrow> out_item list \<Rightarrow>
   nat option list \<Rightarrow> out_item list \<times> exit_status" where
  "scan_events L debug_is event_base h file printed_so_far group_index =
     (let event_data_bytes = event_data_len h * 4096;
          event_data = event_table h file
      in if length event_data \<noteq> event_data_bytes then (printed_so_far, Exit 3)
         else
           (let r = event_scan L debug_is
                      \<lparr> ctx_group_data = group_table h file,
                        ctx_group_index = group_index,
                        ctx_group_count = group_entry_count h,
                        ctx_event_base = event_base \<rparr>
                      (event_entry_count h) event_data
            in if stop_reason r = Undefined
                 then (printed_so_far @ outputs r, Undefined_behaviour)
               else (printed_so_far @ outputs r, Exit 0)))"

definition scan_groups ::
  "layout \<Rightarrow> (nat \<Rightarrow> bool) \<Rightarrow> nat \<Rightarrow> page_0 \<Rightarrow> buffer \<Rightarrow> out_item list \<Rightarrow>
   out_item list \<times> exit_status" where
  "scan_groups L debug_is event_base h file printed_so_far =
     (let group_data_bytes = group_data_len h * 4096;
          allocated = group_data_len h;
          group_data = group_table h file
      in if length group_data > allocated then (printed_so_far, Undefined_behaviour)
         else if length group_data \<noteq> group_data_bytes then (printed_so_far, Exit 3)
         else
           (case group_scan L debug_is (group_entry_count h) group_data of
              (r, group_index) \<Rightarrow>
                if stop_reason r = Undefined
                  then (printed_so_far @ outputs r, Undefined_behaviour)
                else scan_events L debug_is event_base h file
                       (printed_so_far @ outputs r) group_index))"

definition main :: "layout \<Rightarrow> (nat \<Rightarrow> bool) \<Rightarrow> nat \<Rightarrow> buffer \<Rightarrow> out_item list \<times> exit_status" where
  "main L debug_is event_base file =
     (let buf = fread_at file 0 4096
      in if length buf \<noteq> 4096 then (start_debug, Exit 1)
         else
           (case read_page_0 L buf of
              None \<Rightarrow> (start_debug, Undefined_behaviour)
            | Some h \<Rightarrow>
                (let schema_data_bytes = schema_data_len h * 4096;
                     schema_data = schema_table h file
                 in if length schema_data \<noteq> schema_data_bytes
                      then (start_debug @ header_debug, Exit 3)
                    else
                      (let r = schema_scan L debug_is (schema_entry_count h) schema_data
                       in if stop_reason r = Undefined
                            then (start_debug @ header_debug @ outputs r, Undefined_behaviour)
                          else scan_groups L debug_is event_base h file
                                 (start_debug @ header_debug @ outputs r)))))"

section \<open>The length-prefixed string reader of the specification\<close>

text \<open>
  The reader as the specification words it (4.2), for comparison with the accessors of
  the code: at a starting offset it reads a big-endian 16-bit length \<open>l\<close>; a length
  below 2 fails with \<open>TruncatedField\<close>; otherwise the payload is the \<open>l - 2\<close> bytes right
  after the length word, and the end offset \<open>offset + l\<close> is where the next field
  starts. The result is the payload's start, the payload's length and the end offset.
  \<open>spec_read_fields\<close> applies the reader \<open>k\<close> times in sequence, each end offset feeding
  the next start offset, and returns start and length of every payload.
\<close>

datatype field_error = TruncatedField | ReadBeyondBuffer

definition spec_read_field :: "buffer \<Rightarrow> nat \<Rightarrow> field_error + (nat \<times> nat \<times> nat)" where
  "spec_read_field buf offset =
     (case rd_be16 buf offset of
        None \<Rightarrow> Inl ReadBeyondBuffer
      | Some l \<Rightarrow> if l < 2 then Inl TruncatedField else Inr (offset + 2, l - 2, offset + l))"

fun spec_read_fields :: "buffer \<Rightarrow> nat \<Rightarrow> nat \<Rightarrow> field_error + (nat \<times> nat) list" where
  "spec_read_fields buf offset 0 = Inr []"
| "spec_read_fields buf offset (Suc k) =
     (case spec_read_field buf offset of
        Inl err \<Rightarrow> Inl err
      | Inr (payload, len, next_offset) \<Rightarrow>
          (case spec_read_fields buf next_offset k of
             Inl err \<Rightarrow> Inl err
           | Inr fs \<Rightarrow> Inr ((payload, len) # fs)))"


section \<open>Concrete inputs\<close>

text \<open>
  An event context without groups, for scans that do not print the verbose dump.
\<close>

definition no_ctx :: event_context where
  "no_ctx = \<lparr> ctx_group_data = [], ctx_group_index = [], ctx_group_count = 0,
              ctx_event_base = 16 \<rparr>"

text \<open>
  An event record of 96 bytes in the layout \<open>hv_24x7_layout\<close>: domain 2 (physical core),
  event group record at offset 0x300 with length 8, counter offset 0x58, name
  \<open>HPM_TLBIE\<close> (length word 11), description \<open>tlbie\<close> (length word 7) and an empty long
  description (length word 2), padded with zero bytes. \<open>tlbie_table\<close> is a table of one
  page that holds this record; \<open>placeholder_table\<close> holds a placeholder record of 32 bytes
  (event group record length 0, name length 0) followed by the same event.
\<close>

definition tlbie_event :: buffer where
  "tlbie_event =
     [0x00, 0x60, 0, 0, 2, 0, 0x03, 0x00, 0x00, 0x08, 0x00, 0x58, 0, 0, 0, 0,
      0x00, 0x00, 0x00, 0x01, 0x00, 0x0B,
      0x48, 0x50, 0x4D, 0x5F, 0x54, 0x4C, 0x42, 0x49, 0x45,
      0x00, 0x07, 0x74, 0x6C, 0x62, 0x69, 0x65,
      0x00, 0x02] @ replicate 56 0"

definition tlbie_table :: buffer where
  "tlbie_table = tlbie_event @ replicate 4000 0"

definition placeholder_table :: buffer where
  "placeholder_table =
     [0x00, 0x20, 0, 0, 2, 0, 0x03, 0x00, 0x00, 0x00, 0x00, 0x58, 0, 0, 0, 0,
      0x00, 0x00, 0x00, 0x01, 0x00, 0x00] @ replicate 10 0 @ tlbie_event @ replicate 3968 0"

text \<open>
  A group record of 64 bytes in the layout \<open>hv_24x7_layout\<close>: domain 2, name \<open>TLB\<close>
  (length word 5), description \<open>tlb ops\<close> (length word 9), padded with zero bytes, and
  a group table of one page that holds it.
\<close>

definition tlb_group :: buffer where
  "tlb_group =
     [0x00, 0x40, 0, 0, 0, 0, 0, 0, 2, 0, 0x03, 0x00, 0x00, 0x08, 0, 1] @
     replicate 32 0 @
     [0x00, 0x05, 0x54, 0x4C, 0x42,
      0x00, 0x09, 0x74, 0x6C, 0x62, 0x20, 0x6F, 0x70, 0x73, 0, 0]"

definition tlb_group_table :: buffer where
  "tlb_group_table = tlb_group @ replicate 4032 0"


definition verbose :: "nat \<Rightarrow> bool" where
  "verbose l \<longleftrightarrow> l \<le> 5"

text \<open>
  An event table of one page whose first record has a non-zero event group record length
  and the name length word 1.
\<close>

definition short_name_table :: buffer where
  "short_name_table =
     [0x00, 0x20, 0, 0, 2, 0, 0x03, 0x00, 0x00, 0x08, 0x00, 0x58, 0, 0, 0, 0,
      0x00, 0x00, 0x00, 0x01, 0x00, 0x01] @ replicate 4074 0"

text \<open>
  Two schema tables of one page, each with a single record with one field entry: in
  \<open>schema_table_4080\<close> the record is 4080 bytes long and leaves 16 bytes of the page, in
  \<open>schema_table_4096\<close> it fills the page.
\<close>

definition schema_table_4080 :: buffer where
  "schema_table_4080 =
     [0x0F, 0xF0, 0, 0, 0, 1, 0, 1, 0, 0, 0, 0, 0, 0, 0, 1] @ replicate 4080 0"

definition schema_table_4096 :: buffer where
  "schema_table_4096 =
     [0x10, 0x00, 0, 0, 0, 1, 0, 1, 0, 0, 0, 0, 0, 0, 0, 1] @ replicate 4080 0"

text \<open>
  An event table of one page that a single event record of 4096 bytes fills: the event of
  \<open>tlbie_table\<close> with the length field 4096.
\<close>

definition full_page_event_table :: buffer where
  "full_page_event_table =
     [0x10, 0x00, 0, 0, 2, 0, 0x03, 0x00, 0x00, 0x08, 0x00, 0x58, 0, 0, 0, 0,
      0x00, 0x00, 0x00, 0x01, 0x00, 0x0B,
      0x48, 0x50, 0x4D, 0x5F, 0x54, 0x4C, 0x42, 0x49, 0x45,
      0x00, 0x07, 0x74, 0x6C, 0x62, 0x69, 0x65,
      0x00, 0x02] @ replicate 4056 0"

text \<open>
  A catalog file of four pages in the layout \<open>hv_24x7_layout\<close>: page 0 declares the schema
  table at page 1, the group table at page 2 and the event table at page 3, each one page
  long with one entry; the tables are \<open>schema_table_4080\<close>, \<open>tlb_group_table\<close> and
  \<open>tlbie_table\<close>. \<open>catalog_header\<close> is what the program reads from page 0.
\<close>

definition catalog_page_0 :: buffer where
  "catalog_page_0 =
     [0x32, 0x34, 0x78, 0x37, 0, 0, 0, 4] @ replicate 56 0 @
     [0, 1, 0, 1, 0, 1, 0, 0,
      0, 3, 0, 1, 0, 1, 0, 0,
      0, 2, 0, 1, 0, 1, 0, 0] @ replicate 4008 0"

definition catalog_header :: page_0 where
  "catalog_header =
     \<lparr> schema_data_offs = 1, schema_data_len = 1, schema_entry_count = 1,
       event_data_offs = 3, event_data_len = 1, event_entry_count = 1,
       group_data_offs = 2, group_data_len = 1, group_entry_count = 1,
       formula_data_offs = 0, formula_data_len = 0, formula_entry_count = 0 \<rparr>"

definition catalog_file :: buffer where
  "catalog_file = catalog_page_0 @ schema_table_4080 @ tlb_group_table @ tlbie_table"

text \<open>
  Two event tables of one page. In \<open>overlong_name_table\<close> the only record has the length
  field 4096 and the name length word 4096. In \<open>long_tail_table\<close> a placeholder of 4048
  bytes is followed by a record of 48 bytes that ends with the table: name \<open>HPM_TLBIE\<close>
  (length word 11), description \<open>tlbie\<close> (length word 7) and a long description with the
  length word 30, so that the three length words add up to the record's length 48. Its
  domain code is 7, which is not in the domain table, so that \<open>domain_to_string\<close> is
  defined for it.
\<close>

definition overlong_name_table :: buffer where
  "overlong_name_table =
     [0x10, 0x00, 0, 0, 2, 0, 0x03, 0x00, 0x00, 0x08, 0x00, 0x58, 0, 0, 0, 0,
      0x00, 0x00, 0x00, 0x01, 0x10, 0x00] @ replicate 4074 0"

definition long_tail_table :: buffer where
  "long_tail_table =
     [0x0F, 0xD0] @ replicate 4046 0 @
     [0x00, 0x30, 0, 0, 7, 0, 0x03, 0x00, 0x00, 0x08, 0x00, 0x58, 0, 0, 0, 0,
      0x00, 0x00, 0x00, 0x01, 0x00, 0x0B,
      0x48, 0x50, 0x4D, 0x5F, 0x54, 0x4C, 0x42, 0x49, 0x45,
      0x00, 0x07, 0x74, 0x6C, 0x62, 0x69, 0x65,
      0x00, 0x1E, 0x61, 0x62, 0x63, 0x64, 0x65, 0x66, 0x67, 0x68]"

text \<open>
  Two event tables of one page whose first record, of 32 bytes, has the name \<open>ab\<close>
  (length word 4) and the description length word 1, and is followed by the event of
  \<open>tlbie_table\<close>. In \<open>short_desc_placeholder_table\<close> the first record is a placeholder
  (event group record length 0), in \<open>short_desc_event_table\<close> it is not (length 8).
\<close>

definition short_desc_placeholder_table :: buffer where
  "short_desc_placeholder_table =
     [0x00, 0x20, 0, 0, 2, 0, 0x03, 0x00, 0x00, 0x00, 0x00, 0x58, 0, 0, 0, 0,
      0x00, 0x00, 0x00, 0x01, 0x00, 0x04, 0x61, 0x62, 0x00, 0x01] @ replicate 6 0 @
     tlbie_event @ replicate 3968 0"

definition short_desc_event_table :: buffer where
  "short_desc_event_table =
     [0x00, 0x20, 0, 0, 2, 0, 0x03, 0x00, 0x00, 0x08, 0x00, 0x58, 0, 0, 0, 0,
      0x00, 0x00, 0x00, 0x01, 0x00, 0x04, 0x61, 0x62, 0x00, 0x01] @ replicate 6 0 @
     tlbie_event @ replicate 3968 0"

section \<open>Properties\<close>

subsection \<open>Unfolding the loops\<close>

declare print_schema_fields.simps [simp del]
declare schema_loop.simps [simp del]
declare group_loop.simps [simp del]
declare event_loop.simps [simp del]

lemma final_i_printed [simp]: "final_i (printed outs r) = final_i r"
  by (simp add: printed_def)

lemma stop_reason_printed [simp]: "stop_reason (printed outs r) = stop_reason r"
  by (simp add: printed_def)

lemma outputs_printed [simp]: "outputs (printed outs r) = outs @ outputs r"
  by (simp add: printed_def)

lemma schema_body_Next: "schema_body L d n buf i p = Next outs p' \<Longrightarrow> i < n"
  by (auto simp: schema_body_def Let_def split: if_splits option.splits bool.splits prod.splits)

lemma group_body_Next: "group_body L d n buf i st = Next outs st' \<Longrightarrow> i < n"
  by (auto simp: group_body_def Let_def split: if_splits option.splits bool.splits prod.splits)

lemma event_body_Next: "event_body L d ctx n buf i p = Next outs p' \<Longrightarrow> i < n"
  by (auto simp: event_body_def Let_def split: if_splits option.splits bool.splits prod.splits)

lemma schema_loop_Break:
  "schema_body L d n buf i p = Break outs s \<Longrightarrow>
   schema_loop L d n buf i p = \<lparr>final_i = i, outputs = outs, stop_reason = s\<rparr>"
  by (simp add: schema_loop.simps)

lemma schema_loop_Next:
  "schema_body L d n buf i p = Next outs p' \<Longrightarrow>
   schema_loop L d n buf i p = printed outs (schema_loop L d n buf (i + 1) p')"
  by (simp add: schema_loop.simps)

lemma group_loop_Break:
  "group_body L d n buf i st = Break outs s \<Longrightarrow>
   group_loop L d n buf i st = (\<lparr>final_i = i, outputs = outs, stop_reason = s\<rparr>, snd st)"
  by (simp add: group_loop.simps)

lemma group_loop_Next:
  "group_body L d n buf i st = Next outs st' \<Longrightarrow>
   group_loop L d n buf i st =
     (printed outs (fst (group_loop L d n buf (i + 1) st')),
      snd (group_loop L d n buf (i + 1) st'))"
  by (simp add: group_loop.simps split: prod.splits)

lemma event_loop_Break:
  "event_body L d ctx n buf i p = Break outs s \<Longrightarrow>
   event_loop L d ctx n buf i p = \<lparr>final_i = i, outputs = outs, stop_reason = s\<rparr>"
  by (simp add: event_loop.simps)

lemma event_loop_Next:
  "event_body L d ctx n buf i p = Next outs p' \<Longrightarrow>
   event_loop L d ctx n buf i p = printed outs (event_loop L d ctx n buf (i + 1) p')"
  by (simp add: event_loop.simps)

subsection \<open>The loop counter is bounded by the declared count\<close>

lemma schema_loop_bound:
  "i \<le> final_i (schema_loop L d n buf i p) \<and> final_i (schema_loop L d n buf i p) \<le> max i n"
proof (induction L d n buf i p rule: schema_loop.induct)
  case (1 L d n buf i p)
  show ?case
  proof (cases "schema_body L d n buf i p")
    case (Break outs s)
    then show ?thesis by (simp add: schema_loop_Break)
  next
    case (Next outs p')
    from schema_body_Next[OF Next] have "i < n" .
    with 1[OF Next] Next show ?thesis
      by (simp add: schema_loop_Next)
  qed
qed

lemma group_loop_bound:
  "i \<le> final_i (fst (group_loop L d n buf i st)) \<and>
   final_i (fst (group_loop L d n buf i st)) \<le> max i n"
proof (induction L d n buf i st rule: group_loop.induct)
  case (1 L d n buf i st)
  show ?case
  proof (cases "group_body L d n buf i st")
    case (Break outs s)
    then show ?thesis by (simp add: group_loop_Break)
  next
    case (Next outs st')
    from group_body_Next[OF Next] have "i < n" .
    with 1[OF Next] Next show ?thesis
      by (simp add: group_loop_Next)
  qed
qed

lemma event_loop_bound:
  "i \<le> final_i (event_loop L d ctx n buf i p) \<and>
   final_i (event_loop L d ctx n buf i p) \<le> max i n"
proof (induction L d ctx n buf i p rule: event_loop.induct)
  case (1 L d ctx n buf i p)
  show ?case
  proof (cases "event_body L d ctx n buf i p")
    case (Break outs s)
    then show ?thesis by (simp add: event_loop_Break)
  next
    case (Next outs p')
    from event_body_Next[OF Next] have "i < n" .
    with 1[OF Next] Next show ?thesis
      by (simp add: event_loop_Next)
  qed
qed

lemma final_i_event_scan:
  "final_i (event_scan L d ctx n buf) = final_i (event_loop L d ctx n buf 0 0)"
  by (simp add: event_scan_def Let_def)

lemma schema_body_stops:
  "n \<le> i \<or> length buf \<le> p \<Longrightarrow> \<exists>outs s. schema_body L d n buf i p = Break outs s"
  by (auto simp: schema_body_def)

lemma group_body_stops:
  "n \<le> i \<or> length buf \<le> fst st \<Longrightarrow> \<exists>outs s. group_body L d n buf i st = Break outs s"
  by (auto simp: group_body_def split: prod.splits)

lemma event_body_stops:
  "n \<le> i \<or> length buf \<le> p \<Longrightarrow> \<exists>outs s. event_body L d ctx n buf i p = Break outs s"
  by (auto simp: event_body_def)

text \<open>
  An event table of one page of zero bytes with three declared events: every record is a
  placeholder of length 0, the cursor never moves, and the scan ends when the counter
  reaches the declared count.
\<close>

lemma zero_table_scan:
  "event_scan hv_24x7_layout d ctx 3 (replicate 4096 0) =
     \<lparr>final_i = 3,
      outputs = [PrDebug 10 ''invalid event, skipping'', PrDebug 10 ''invalid event, skipping'',
                 PrDebug 10 ''invalid event, skipping'',
                 PrDebug 2 ''event count ends before buffer end (offset=%zu, end=%zu bytes remaining=%zu)''],
      stop_reason = CountReached\<rparr>"
  by (simp add: event_scan_def event_loop.simps event_body_def
      event_fixed_portion_is_within_def hv_24x7_layout_def rd_be16_def rd_u8_def printed_def)

text \<open>
  C9. Each of the three table scans terminates. The loops are total functions: their
  termination proofs use the measure \<open>declared count - i\<close>. \<open>final_i\<close> is the value of the
  loop counter when the loop is left, that is, the number of iterations that ran to their
  end. Started at counter \<open>i\<close>, a loop is left with the counter at most \<open>max i n\<close>, so a scan
  runs its body at most \<open>n + 1\<close> times for a declared count \<open>n\<close>; an iteration that finds
  the counter at the declared count, or the cursor at or beyond the table's length, leaves
  the loop at once; and a table of zero-length placeholder events, which never moves the
  cursor, is left after as many iterations as events are declared.
\<close>

theorem C9_scans_terminate:
  "final_i (schema_loop L d n buf i p) \<le> max i n \<and>
   final_i (fst (group_loop L d n buf i st)) \<le> max i n \<and>
   final_i (event_loop L d ctx n buf i p) \<le> max i n \<and>
   final_i (schema_scan L d n buf) \<le> n \<and>
   final_i (fst (group_scan L d n buf)) \<le> n \<and>
   final_i (event_scan L d ctx n buf) \<le> n \<and>
   final_i (schema_loop L d n buf (n + k) p) = n + k \<and>
   final_i (schema_loop L d n buf i (length buf + k)) = i \<and>
   final_i (fst (group_loop L d n buf (n + k) st)) = n + k \<and>
   final_i (fst (group_loop L d n buf i (length buf + k, gi))) = i \<and>
   final_i (event_loop L d ctx n buf (n + k) p) = n + k \<and>
   final_i (event_loop L d ctx n buf i (length buf + k)) = i \<and>
   final_i (event_scan hv_24x7_layout d ctx 3 (replicate 4096 0)) = 3"
proof -
  have s1: "final_i (schema_loop L d n buf (n + k) p) = n + k"
    using schema_body_stops[of n "n + k" buf p L d] by (auto simp: schema_loop_Break)
  have s2: "final_i (schema_loop L d n buf i (length buf + k)) = i"
    using schema_body_stops[of n i buf "length buf + k" L d] by (auto simp: schema_loop_Break)
  have g1: "final_i (fst (group_loop L d n buf (n + k) st)) = n + k"
    using group_body_stops[of n "n + k" buf st L d] by (auto simp: group_loop_Break)
  have g2: "final_i (fst (group_loop L d n buf i (length buf + k, gi))) = i"
    using group_body_stops[of n i buf "(length buf + k, gi)" L d]
    by (auto simp: group_loop_Break)
  have e1: "final_i (event_loop L d ctx n buf (n + k) p) = n + k"
    using event_body_stops[of n "n + k" buf p L d ctx] by (auto simp: event_loop_Break)
  have e2: "final_i (event_loop L d ctx n buf i (length buf + k)) = i"
    using event_body_stops[of n i buf "length buf + k" L d ctx]
    by (auto simp: event_loop_Break)
  have z: "final_i (event_scan hv_24x7_layout d ctx 3 (replicate 4096 0)) = 3"
    by (simp add: zero_table_scan)
  show ?thesis
    using schema_loop_bound[of i L d n buf p] group_loop_bound[of i L d n buf st]
      event_loop_bound[of i L d ctx n buf p]
      schema_loop_bound[of 0 L d n buf 0] group_loop_bound[of 0 L d n buf "(0, replicate n None)"]
      event_loop_bound[of 0 L d ctx n buf 0] s1 s2 g1 g2 e1 e2 z
    by (simp add: schema_scan_def group_scan_def final_i_event_scan)
qed

text \<open>
  C10. The fixed-portion check of every record kind is a strict inequality: the record's
  start plus the size of its fixed portion must be less than the boundary. A record whose
  fixed portion ends exactly at the end of the table is therefore not within, and the scan
  that reaches it stops with the message that the fixed portion is not within range.
\<close>

theorem C10_fixed_portion_check_is_strict:
  "(event_fixed_portion_is_within L ev e \<longleftrightarrow> ev + ev_remainder L < e) \<and>
   (group_fixed_portion_is_within L grp e \<longleftrightarrow> grp + gr_sizeof L < e) \<and>
   (schema_fixed_portion_is_within L schema e \<longleftrightarrow> schema + grs_sizeof L < e) \<and>
   (ev + ev_remainder L = length buf \<and> 0 < ev_remainder L \<and> i < n \<longrightarrow>
      event_body L d ctx n buf i ev =
        Break [Warnx ''event fixed portion is not within range''] FixedPortion) \<and>
   (grp + gr_sizeof L = length buf \<longrightarrow>
      group_body L d n buf i (grp, gi) =
        Break [Warnx ''group fixed portion is not within range''] FixedPortion) \<and>
   (schema + grs_sizeof L = length buf \<longrightarrow>
      schema_body L d n buf i schema =
        Break [Warnx ''schema fixed portion is not within range''] FixedPortion)"
  by (auto simp: event_fixed_portion_is_within_def group_fixed_portion_is_within_def
      schema_fixed_portion_is_within_def event_body_def group_body_def schema_body_def)

theorem C10_fixed_portion_check_is_strict_witness:
  "\<not> event_fixed_portion_is_within hv_24x7_layout 4074 4096 \<and>
   \<not> group_fixed_portion_is_within hv_24x7_layout 4046 4096 \<and>
   \<not> schema_fixed_portion_is_within hv_24x7_layout 4080 4096 \<and>
   event_body hv_24x7_layout (\<lambda>l. False) no_ctx 1 (replicate 4096 0) 0 4074 =
     Break [Warnx ''event fixed portion is not within range''] FixedPortion \<and>
   group_body hv_24x7_layout (\<lambda>l. False) 1 (replicate 4096 0) 0 (4046, [None]) =
     Break [Warnx ''group fixed portion is not within range''] FixedPortion \<and>
   schema_body hv_24x7_layout (\<lambda>l. False) 1 (replicate 4096 0) 0 4080 =
     Break [Warnx ''schema fixed portion is not within range''] FixedPortion"
  using C10_fixed_portion_check_is_strict[where L = hv_24x7_layout and ev = 4074 and grp = 4046
      and schema = 4080 and e = 4096 and buf = "replicate 4096 0" and i = 0 and n = 1
      and d = "\<lambda>l. False" and ctx = no_ctx and gi = "[None]"]
  by (simp add: hv_24x7_layout_def)

subsection \<open>Reading inside the buffer\<close>

lemma rd_be16_Some: "p + 2 \<le> length buf \<Longrightarrow> \<exists>v. rd_be16 buf p = Some v"
  by (simp add: rd_be16_def rd_u8_def)

lemma rd_strn_unfold:
  "rd_strn buf p n =
     (if n = 0 then Some []
      else if p < length buf
      then (if buf ! p = 0 then Some []
            else (case rd_strn buf (Suc p) (n - 1) of
                    None \<Rightarrow> None
                  | Some bs \<Rightarrow> Some (buf ! p # bs)))
      else None)"
  by (cases n) simp_all

lemmas eval_rd = rd_be16_def rd_u8_def nth_append hv_24x7_layout_def

lemmas eval_event =
  event_loop.simps event_body_def event_fixed_portion_is_within_def
  event_is_within_def PTR_ALIGN_def no_ctx_def Let_def
  print_event_def print_event_for_all_domains_def print_event_fmt_def
  event_name_def size_t_minus2_def rd_strn_unfold
  core_domains_def domain_to_index_string_def is_physical_domain_def
  HV_PERF_DOMAIN_PHYSICAL_CHIP_def
  HV_PERF_DOMAIN_PHYSICAL_CORE_def HV_PERF_DOMAIN_VIRTUAL_PROCESSOR_HOME_CORE_def
  HV_PERF_DOMAIN_VIRTUAL_PROCESSOR_HOME_CHIP_def
  HV_PERF_DOMAIN_VIRTUAL_PROCESSOR_HOME_NODE_def
  HV_PERF_DOMAIN_VIRTUAL_PROCESSOR_REMOTE_NODE_def

lemma wf_hv_24x7_layout:
  "wf_event_layout hv_24x7_layout \<and> wf_group_layout hv_24x7_layout \<and>
   wf_schema_layout hv_24x7_layout"
  by (simp add: wf_event_layout_def wf_group_layout_def wf_schema_layout_def hv_24x7_layout_def)

text \<open>
  C5. An event record that the scan reaches (counter below the declared count, fixed
  portion within the table) and whose event group record length is zero is skipped: the
  iteration prints nothing but the level-10 debugging message, no check of the record is
  made, and the loop goes on with the next counter value at the cursor advanced by the
  record's own length field.
\<close>

theorem C5_placeholder_event_is_skipped:
  assumes "wf_event_layout L" and "i < n"
    and "event_fixed_portion_is_within L event (length buf)"
    and "rd_be16 buf (event + ev_event_group_record_len L) = Some 0"
  shows "\<exists>ev_len. rd_be16 buf (event + ev_length L) = Some ev_len \<and>
           event_body L d ctx n buf i event =
             Next [PrDebug 10 ''invalid event, skipping''] (event + ev_len) \<and>
           event_loop L d ctx n buf i event =
             printed [PrDebug 10 ''invalid event, skipping'']
               (event_loop L d ctx n buf (i + 1) (event + ev_len))"
proof -
  from assms(1,3) have "event + ev_length L + 2 \<le> length buf"
    by (simp add: wf_event_layout_def event_fixed_portion_is_within_def)
  then obtain ev_len where len: "rd_be16 buf (event + ev_length L) = Some ev_len"
    using rd_be16_Some by blast
  from assms(3) have lt: "event < length buf"
    by (simp add: event_fixed_portion_is_within_def)
  have body: "event_body L d ctx n buf i event =
      Next [PrDebug 10 ''invalid event, skipping''] (event + ev_len)"
    using assms(2,3,4) len lt by (simp add: event_body_def)
  show ?thesis
    using len body event_loop_Next[OF body] by blast
qed

theorem C5_placeholder_event_is_skipped_witness:
  "\<exists>ev_len. rd_be16 placeholder_table (0 + ev_length hv_24x7_layout) = Some ev_len \<and>
     event_body hv_24x7_layout (\<lambda>l. False) no_ctx 2 placeholder_table 0 0 =
       Next [PrDebug 10 ''invalid event, skipping''] (0 + ev_len) \<and>
     event_loop hv_24x7_layout (\<lambda>l. False) no_ctx 2 placeholder_table 0 0 =
       printed [PrDebug 10 ''invalid event, skipping'']
         (event_loop hv_24x7_layout (\<lambda>l. False) no_ctx 2 placeholder_table (0 + 1) (0 + ev_len))"
proof -
  have 1: "wf_event_layout hv_24x7_layout"
    by (simp add: wf_hv_24x7_layout)
  have 2: "(0::nat) < 2" by simp
  have 3: "event_fixed_portion_is_within hv_24x7_layout 0 (length placeholder_table)"
    by (simp add: event_fixed_portion_is_within_def hv_24x7_layout_def placeholder_table_def tlbie_event_def)
  have 4: "rd_be16 placeholder_table (0 + ev_event_group_record_len hv_24x7_layout) = Some 0"
    by (simp add: placeholder_table_def eval_rd)
  show ?thesis
    by (rule C5_placeholder_event_is_skipped[OF 1 2 3 4])
qed

text \<open>
  C3. For an event whose name, domain and offsets can be read, the renderer prints the
  name and then: for domain physical chip one line; for domain physical core five lines,
  for physical core, virtual processor home core, home chip, home node and remote node,
  in this order; for any other domain no line, and the call \<open>pr_debug(1, "Whoops")\<close>.
  Every line carries the domain code, the sum of the event counter offset and the event
  group record offset, the starting-index label of the line's domain, and the lpar field
  \<open>0x0\<close> when the line's domain is physical and \<open>sibling_guest_id\<close> otherwise. Without
  the verbose level 5 this is all that \<open>print_event\<close> prints.
\<close>

theorem C3_event_lines:
  assumes "event_name L buf event = Some (name, nl)"
    and "rd_strn buf name nl = Some s"
    and "rd_u8 buf (event + ev_domain L) = Some domain"
    and "rd_be16 buf (event + ev_event_counter_offs L) = Some counter_offs"
    and "rd_be16 buf (event + ev_event_group_record_offs L) = Some group_record_offs"
  shows "print_event_fmt L buf event dm =
           Some (snd (domain_to_index_string dm) @
                 [EventLine dm (counter_offs + group_record_offs)
                    (fst (domain_to_index_string dm))
                    (if is_physical_domain dm then ''0x0'' else ''sibling_guest_id'')]) \<and>
         print_event_for_all_domains L buf event =
           Some (EventName s #
             (if domain = HV_PERF_DOMAIN_PHYSICAL_CHIP then
                [EventLine HV_PERF_DOMAIN_PHYSICAL_CHIP (counter_offs + group_record_offs)
                   ''chip'' ''0x0'']
              else if domain = HV_PERF_DOMAIN_PHYSICAL_CORE then
                [EventLine HV_PERF_DOMAIN_PHYSICAL_CORE (counter_offs + group_record_offs)
                   ''core'' ''0x0'',
                 EventLine HV_PERF_DOMAIN_VIRTUAL_PROCESSOR_HOME_CORE
                   (counter_offs + group_record_offs) ''vcpu'' ''sibling_guest_id'',
                 EventLine HV_PERF_DOMAIN_VIRTUAL_PROCESSOR_HOME_CHIP
                   (counter_offs + group_record_offs) ''vcpu'' ''sibling_guest_id'',
                 EventLine HV_PERF_DOMAIN_VIRTUAL_PROCESSOR_HOME_NODE
                   (counter_offs + group_record_offs) ''vcpu'' ''sibling_guest_id'',
                 EventLine HV_PERF_DOMAIN_VIRTUAL_PROCESSOR_REMOTE_NODE
                   (counter_offs + group_record_offs) ''vcpu'' ''sibling_guest_id'']
              else [PrDebug 1 ''Whoops''])) \<and>
         (\<not> d 5 \<longrightarrow>
            print_event L d group_data group_index group_count buf event =
              print_event_for_all_domains L buf event)"
proof -
  have fmt: "\<And>dm. print_event_fmt L buf event dm =
           Some (snd (domain_to_index_string dm) @
                 [EventLine dm (counter_offs + group_record_offs)
                    (fst (domain_to_index_string dm))
                    (if is_physical_domain dm then ''0x0'' else ''sibling_guest_id'')])"
    using assms(4,5) by (simp add: print_event_fmt_def)
  have doms: "is_physical_domain HV_PERF_DOMAIN_PHYSICAL_CHIP"
    "is_physical_domain HV_PERF_DOMAIN_PHYSICAL_CORE"
    "\<not> is_physical_domain HV_PERF_DOMAIN_VIRTUAL_PROCESSOR_HOME_CORE"
    "\<not> is_physical_domain HV_PERF_DOMAIN_VIRTUAL_PROCESSOR_HOME_CHIP"
    "\<not> is_physical_domain HV_PERF_DOMAIN_VIRTUAL_PROCESSOR_HOME_NODE"
    "\<not> is_physical_domain HV_PERF_DOMAIN_VIRTUAL_PROCESSOR_REMOTE_NODE"
    by (simp_all add: is_physical_domain_def HV_PERF_DOMAIN_PHYSICAL_CHIP_def
        HV_PERF_DOMAIN_PHYSICAL_CORE_def HV_PERF_DOMAIN_VIRTUAL_PROCESSOR_HOME_CORE_def
        HV_PERF_DOMAIN_VIRTUAL_PROCESSOR_HOME_CHIP_def
        HV_PERF_DOMAIN_VIRTUAL_PROCESSOR_HOME_NODE_def
        HV_PERF_DOMAIN_VIRTUAL_PROCESSOR_REMOTE_NODE_def)
  have labels: "domain_to_index_string HV_PERF_DOMAIN_PHYSICAL_CHIP = (''chip'', [])"
    "domain_to_index_string HV_PERF_DOMAIN_PHYSICAL_CORE = (''core'', [])"
    "domain_to_index_string HV_PERF_DOMAIN_VIRTUAL_PROCESSOR_HOME_CORE = (''vcpu'', [])"
    "domain_to_index_string HV_PERF_DOMAIN_VIRTUAL_PROCESSOR_HOME_CHIP = (''vcpu'', [])"
    "domain_to_index_string HV_PERF_DOMAIN_VIRTUAL_PROCESSOR_HOME_NODE = (''vcpu'', [])"
    "domain_to_index_string HV_PERF_DOMAIN_VIRTUAL_PROCESSOR_REMOTE_NODE = (''vcpu'', [])"
    by (simp_all add: domain_to_index_string_def HV_PERF_DOMAIN_PHYSICAL_CHIP_def
        HV_PERF_DOMAIN_PHYSICAL_CORE_def HV_PERF_DOMAIN_VIRTUAL_PROCESSOR_HOME_CORE_def
        HV_PERF_DOMAIN_VIRTUAL_PROCESSOR_HOME_CHIP_def
        HV_PERF_DOMAIN_VIRTUAL_PROCESSOR_HOME_NODE_def
        HV_PERF_DOMAIN_VIRTUAL_PROCESSOR_REMOTE_NODE_def)
  have ne: "HV_PERF_DOMAIN_PHYSICAL_CORE \<noteq> HV_PERF_DOMAIN_PHYSICAL_CHIP"
    by (simp add: HV_PERF_DOMAIN_PHYSICAL_CHIP_def HV_PERF_DOMAIN_PHYSICAL_CORE_def)
  have all: "print_event_for_all_domains L buf event =
           Some (EventName s #
             (if domain = HV_PERF_DOMAIN_PHYSICAL_CHIP then
                [EventLine HV_PERF_DOMAIN_PHYSICAL_CHIP (counter_offs + group_record_offs)
                   ''chip'' ''0x0'']
              else if domain = HV_PERF_DOMAIN_PHYSICAL_CORE then
                [EventLine HV_PERF_DOMAIN_PHYSICAL_CORE (counter_offs + group_record_offs)
                   ''core'' ''0x0'',
                 EventLine HV_PERF_DOMAIN_VIRTUAL_PROCESSOR_HOME_CORE
                   (counter_offs + group_record_offs) ''vcpu'' ''sibling_guest_id'',
                 EventLine HV_PERF_DOMAIN_VIRTUAL_PROCESSOR_HOME_CHIP
                   (counter_offs + group_record_offs) ''vcpu'' ''sibling_guest_id'',
                 EventLine HV_PERF_DOMAIN_VIRTUAL_PROCESSOR_HOME_NODE
                   (counter_offs + group_record_offs) ''vcpu'' ''sibling_guest_id'',
                 EventLine HV_PERF_DOMAIN_VIRTUAL_PROCESSOR_REMOTE_NODE
                   (counter_offs + group_record_offs) ''vcpu'' ''sibling_guest_id'']
              else [PrDebug 1 ''Whoops'']))"
    using assms(1,2,3)
    by (simp add: print_event_for_all_domains_def fmt core_domains_def doms labels ne)
  have pe: "\<not> d 5 \<longrightarrow>
            print_event L d group_data group_index group_count buf event =
              print_event_for_all_domains L buf event"
    by (simp add: print_event_def split: option.splits)
  show ?thesis using fmt all pe by blast
qed

theorem C3_event_lines_witness:
  "print_event_fmt hv_24x7_layout tlbie_table 0 HV_PERF_DOMAIN_VIRTUAL_PROCESSOR_HOME_NODE =
     Some [EventLine 5 856 ''vcpu'' ''sibling_guest_id''] \<and>
   print_event_for_all_domains hv_24x7_layout tlbie_table 0 =
     Some [EventName [0x48, 0x50, 0x4D, 0x5F, 0x54, 0x4C, 0x42, 0x49, 0x45],
           EventLine 2 856 ''core'' ''0x0'',
           EventLine 3 856 ''vcpu'' ''sibling_guest_id'',
           EventLine 4 856 ''vcpu'' ''sibling_guest_id'',
           EventLine 5 856 ''vcpu'' ''sibling_guest_id'',
           EventLine 6 856 ''vcpu'' ''sibling_guest_id''] \<and>
   print_event hv_24x7_layout (\<lambda>l. False) [] [] 0 tlbie_table 0 =
     print_event_for_all_domains hv_24x7_layout tlbie_table 0"
proof -
  have 1: "event_name hv_24x7_layout tlbie_table 0 = Some (22, 9)"
    by (simp add: event_name_def size_t_minus2_def tlbie_table_def tlbie_event_def eval_rd)
  have 2: "rd_strn tlbie_table 22 9 = Some [0x48, 0x50, 0x4D, 0x5F, 0x54, 0x4C, 0x42, 0x49, 0x45]"
    by (simp add: rd_strn_unfold tlbie_table_def tlbie_event_def nth_append)
  have 3: "rd_u8 tlbie_table (0 + ev_domain hv_24x7_layout) = Some 2"
    by (simp add: tlbie_table_def tlbie_event_def eval_rd)
  have 4: "rd_be16 tlbie_table (0 + ev_event_counter_offs hv_24x7_layout) = Some 88"
    by (simp add: tlbie_table_def tlbie_event_def eval_rd)
  have 5: "rd_be16 tlbie_table (0 + ev_event_group_record_offs hv_24x7_layout) = Some 768"
    by (simp add: tlbie_table_def tlbie_event_def eval_rd)
  show ?thesis
    using C3_event_lines[OF 1 2 3 4 5, of HV_PERF_DOMAIN_VIRTUAL_PROCESSOR_HOME_NODE
        "\<lambda>l. False" "[]" "[]" 0]
    by (simp add: HV_PERF_DOMAIN_PHYSICAL_CHIP_def
        HV_PERF_DOMAIN_PHYSICAL_CORE_def HV_PERF_DOMAIN_VIRTUAL_PROCESSOR_HOME_CORE_def
        HV_PERF_DOMAIN_VIRTUAL_PROCESSOR_HOME_CHIP_def
        HV_PERF_DOMAIN_VIRTUAL_PROCESSOR_HOME_NODE_def
        HV_PERF_DOMAIN_VIRTUAL_PROCESSOR_REMOTE_NODE_def domain_to_index_string_def
        is_physical_domain_def)
qed

subsection \<open>The string fields\<close>

lemma rd_u8_lt: "rd_u8 buf p = Some v \<Longrightarrow> v < 256"
  using unsigned_less[of "buf ! p", where 'a = nat] by (auto simp: rd_u8_def split: if_splits)

lemma rd_be16_lt: "rd_be16 buf p = Some v \<Longrightarrow> v < 65536"
  by (auto simp: rd_be16_def split: option.splits dest!: rd_u8_lt)

lemma size_t_minus2: "2 \<le> l \<Longrightarrow> l < 65536 \<Longrightarrow> size_t_minus2 l = l - 2"
proof -
  assume "2 \<le> l" and "l < 65536"
  then obtain k where k: "l = k + 2" "k < 65536"
    by (metis add.commute le_Suc_ex less_imp_diff_less add_diff_cancel_left')
  then show ?thesis by (simp add: size_t_minus2_def)
qed

lemma event_is_within_True:
  assumes "event_is_within L buf ev e = Some (True, m)"
  obtains nl dl ldl where
    "rd_be16 buf (ev + ev_event_name_len L) = Some nl" "2 \<le> nl" "ev + nl \<le> e"
    "rd_be16 buf (ev + ev_remainder L + nl - 2) = Some dl" "2 \<le> dl" "ev + nl + dl \<le> e"
    "rd_be16 buf (ev + ev_remainder L + nl + dl - 2) = Some ldl" "2 \<le> ldl"
    "ev + nl + dl + ldl \<le> e"
  using assms by (auto simp: event_is_within_def Let_def split: option.splits if_splits)

lemma group_is_within_True:
  assumes "group_is_within L buf grp e = Some (True, m)"
  obtains nl dl where
    "rd_be16 buf (grp + gr_group_name_len L) = Some nl" "2 \<le> nl" "grp + nl \<le> e"
    "rd_be16 buf (grp + gr_remainder L + nl - 2) = Some dl" "2 \<le> dl" "grp + nl + dl \<le> e"
  using assms by (auto simp: group_is_within_def Let_def split: option.splits if_splits)

lemma map_option_fst_Some: "map_option fst x = Some b \<longleftrightarrow> (\<exists>m. x = Some (b, m))"
  by (cases x) auto

lemma spec_read_fields_2:
  "spec_read_fields buf p 2 =
     (case spec_read_field buf p of
        Inl err \<Rightarrow> Inl err
      | Inr (a, n, e1) \<Rightarrow>
          (case spec_read_field buf e1 of
             Inl err \<Rightarrow> Inl err
           | Inr (b, m, e2) \<Rightarrow> Inr [(a, n), (b, m)]))"
  by (simp add: numeral_2_eq_2 split: sum.splits prod.splits)

lemma spec_read_fields_3:
  "spec_read_fields buf p 3 =
     (case spec_read_field buf p of
        Inl err \<Rightarrow> Inl err
      | Inr (a, n, e1) \<Rightarrow>
          (case spec_read_field buf e1 of
             Inl err \<Rightarrow> Inl err
           | Inr (b, m, e2) \<Rightarrow>
               (case spec_read_field buf e2 of
                  Inl err \<Rightarrow> Inl err
                | Inr (c, k, e3) \<Rightarrow> Inr [(a, n), (b, m), (c, k)])))"
  by (simp add: numeral_3_eq_3 split: sum.splits prod.splits)

lemma event_chain:
  assumes wf: "wf_event_layout L" and ok: "event_is_within L buf ev e = Some (True, m)"
  shows "\<exists>f1 f2 f3.
           spec_read_fields buf (ev + ev_event_name_len L) 3 = Inr [f1, f2, f3] \<and>
           event_name L buf ev = Some f1 \<and> event_desc L buf ev = Some f2 \<and>
           event_long_desc L buf ev = Some f3"
proof -
  from ok obtain nl dl ldl where
    nl: "rd_be16 buf (ev + ev_event_name_len L) = Some nl" "2 \<le> nl" and
    dl: "rd_be16 buf (ev + ev_remainder L + nl - 2) = Some dl" "2 \<le> dl" and
    ldl: "rd_be16 buf (ev + ev_remainder L + nl + dl - 2) = Some ldl" "2 \<le> ldl"
    by (rule event_is_within_True)
  from wf have rem: "ev_remainder L = ev_event_name_len L + 2"
    by (simp add: wf_event_layout_def)
  have e1: "ev + ev_event_name_len L + nl = ev + ev_remainder L + nl - 2"
    using rem by simp
  have e2: "ev + ev_remainder L + nl - 2 + dl = ev + ev_remainder L + nl + dl - 2"
    using rem by simp
  have p1: "ev + ev_event_name_len L + 2 = ev + ev_remainder L"
    using rem by simp
  have p2: "ev + ev_remainder L + nl - 2 + 2 = ev + ev_remainder L + nl"
    using rem by simp
  have p3: "ev + ev_remainder L + nl + dl - 2 + 2 = ev + ev_remainder L + nl + dl"
    using rem by simp
  have f1: "spec_read_field buf (ev + ev_event_name_len L) =
      Inr (ev + ev_remainder L, nl - 2, ev + ev_remainder L + nl - 2)"
    using nl rem by (simp add: spec_read_field_def)
  have f2: "spec_read_field buf (ev + ev_remainder L + nl - 2) =
      Inr (ev + ev_remainder L + nl, dl - 2, ev + ev_remainder L + nl + dl - 2)"
    using dl nl rem by (simp add: spec_read_field_def)
  have f3: "spec_read_field buf (ev + ev_remainder L + nl + dl - 2) =
      Inr (ev + ev_remainder L + nl + dl, ldl - 2, ev + ev_remainder L + nl + dl - 2 + ldl)"
    using ldl nl rem by (simp add: spec_read_field_def)
  have chain: "spec_read_fields buf (ev + ev_event_name_len L) 3 =
      Inr [(ev + ev_remainder L, nl - 2), (ev + ev_remainder L + nl, dl - 2),
           (ev + ev_remainder L + nl + dl, ldl - 2)]"
    by (simp add: spec_read_fields_3 f1 f2 f3)
  have n: "event_name L buf ev = Some (ev + ev_remainder L, nl - 2)"
    using nl rd_be16_lt[OF nl(1)] by (simp add: event_name_def size_t_minus2)
  have d: "event_desc L buf ev = Some (ev + ev_remainder L + nl, dl - 2)"
    using nl dl rd_be16_lt[OF dl(1)] by (simp add: event_desc_def size_t_minus2)
  have l: "event_long_desc L buf ev = Some (ev + ev_remainder L + nl + dl, ldl - 2)"
    using nl dl ldl rd_be16_lt[OF ldl(1)] by (simp add: event_long_desc_def size_t_minus2)
  show ?thesis using chain n d l by blast
qed


lemma group_chain:
  assumes wf: "wf_group_layout L" and ok: "group_is_within L buf grp e = Some (True, m)"
  shows "\<exists>f1 f2.
           spec_read_fields buf (grp + gr_group_name_len L) 2 = Inr [f1, f2] \<and>
           group_name L buf grp = Some f1 \<and> group_desc L buf grp = Some f2"
proof -
  from ok obtain nl dl where
    nl: "rd_be16 buf (grp + gr_group_name_len L) = Some nl" "2 \<le> nl" and
    dl: "rd_be16 buf (grp + gr_remainder L + nl - 2) = Some dl" "2 \<le> dl"
    by (rule group_is_within_True)
  from wf have rem: "gr_remainder L = gr_group_name_len L + 2"
    by (simp add: wf_group_layout_def)
  have f1: "spec_read_field buf (grp + gr_group_name_len L) =
      Inr (grp + gr_remainder L, nl - 2, grp + gr_remainder L + nl - 2)"
    using nl rem by (simp add: spec_read_field_def)
  have f2: "spec_read_field buf (grp + gr_remainder L + nl - 2) =
      Inr (grp + gr_remainder L + nl, dl - 2, grp + gr_remainder L + nl - 2 + dl)"
    using dl nl rem by (simp add: spec_read_field_def)
  have chain: "spec_read_fields buf (grp + gr_group_name_len L) 2 =
      Inr [(grp + gr_remainder L, nl - 2), (grp + gr_remainder L + nl, dl - 2)]"
    by (simp add: spec_read_fields_2 f1 f2)
  have n: "group_name L buf grp = Some (grp + gr_remainder L, nl - 2)"
    using nl rd_be16_lt[OF nl(1)] by (simp add: group_name_def size_t_minus2)
  have d: "group_desc L buf grp = Some (grp + gr_remainder L + nl, dl - 2)"
    using nl dl rd_be16_lt[OF dl(1)] by (simp add: group_desc_def size_t_minus2)
  show ?thesis using chain n d by blast
qed

lemma event_truncated:
  assumes wf: "wf_event_layout L"
    and tr: "spec_read_fields buf (ev + ev_event_name_len L) 3 = Inl TruncatedField"
  shows "\<exists>m. event_is_within L buf ev e = Some (False, m)"
proof -
  from wf have rem: "ev_remainder L = ev_event_name_len L + 2"
    by (simp add: wf_event_layout_def)
  show ?thesis
    using tr
    by (auto simp: spec_read_fields_3 spec_read_field_def event_is_within_def rem Let_def
        split: option.splits if_splits sum.splits)
qed

lemma group_truncated:
  assumes wf: "wf_group_layout L"
    and tr: "spec_read_fields buf (grp + gr_group_name_len L) 2 = Inl TruncatedField"
  shows "\<exists>m. group_is_within L buf grp e = Some (False, m)"
proof -
  from wf have rem: "gr_remainder L = gr_group_name_len L + 2"
    by (simp add: wf_group_layout_def)
  show ?thesis
    using tr
    by (auto simp: spec_read_fields_2 spec_read_field_def group_is_within_def rem Let_def
        split: option.splits if_splits sum.splits)
qed

lemma event_body_rejected:
  assumes "i < n" and "event_fixed_portion_is_within L event (length buf)"
    and "rd_be16 buf (event + ev_length L) = Some ev_len"
    and "rd_be16 buf (event + ev_event_group_record_len L) = Some g" and "g \<noteq> 0"
    and "event_is_within L buf event (length buf) = Some (False, m)"
  shows "event_body L d ctx n buf i event =
           Break ([EventComment i n ev_len event] @
                  (if ev_len mod 16 \<noteq> 0 then [Misaligned] else []) @
                  (if event + ev_len > length buf then [Warnx ''event ends after event data: ev_end=%p > end=%p'']
                   else m @ [Warnx ''event exceeds event data length event=%p end=%p'']))
             (if event + ev_len > length buf then EndsAfterTable else ExceedsTable)"
proof -
  from assms(2) have lt: "\<not> length buf \<le> event"
    by (simp add: event_fixed_portion_is_within_def)
  show ?thesis
    using assms lt by (simp add: event_body_def Let_def)
qed

lemma group_body_rejected:
  assumes "i < n" and "group_fixed_portion_is_within L grp (length buf)"
    and "rd_be16 buf (grp + gr_length L) = Some group_len"
    and "group_is_within L buf grp (length buf) = Some (False, m)"
  shows "group_body L d n buf i (grp, group_index) =
           Break ([PrDebug 1 ''/* group %zu of %u: len=%zu offset=%zu */''] @
                  (if group_len mod 16 \<noteq> 0 then [Misaligned] else []) @
                  (if grp + group_len > length buf then [Warnx ''group ends after group data: group_end=%p > end=%p'']
                   else m @ [Warnx ''group exceeds group data length group=%p end=%p'']))
             (if grp + group_len > length buf then EndsAfterTable else ExceedsTable)"
proof -
  from assms(2) have lt: "\<not> length buf \<le> grp"
    by (simp add: group_fixed_portion_is_within_def)
  show ?thesis
    using assms lt by (simp add: group_body_def Let_def)
qed

lemma event_scan_truncated:
  assumes wf: "wf_event_layout L" and "i < n"
    and "event_fixed_portion_is_within L event (length buf)"
    and "rd_be16 buf (event + ev_length L) = Some ev_len"
    and "rd_be16 buf (event + ev_event_group_record_len L) = Some g" and "g \<noteq> 0"
    and tr: "spec_read_fields buf (event + ev_event_name_len L) 3 = Inl TruncatedField"
  shows "\<exists>m. event_is_within L buf event (length buf) = Some (False, m) \<and>
           event_loop L d ctx n buf i event =
             \<lparr>final_i = i,
              outputs = [EventComment i n ev_len event] @
                (if ev_len mod 16 \<noteq> 0 then [Misaligned] else []) @
                (if event + ev_len > length buf then [Warnx ''event ends after event data: ev_end=%p > end=%p'']
                 else m @ [Warnx ''event exceeds event data length event=%p end=%p'']),
              stop_reason =
                (if event + ev_len > length buf then EndsAfterTable else ExceedsTable)\<rparr>"
proof -
  from event_truncated[OF wf tr] obtain m where
    m: "event_is_within L buf event (length buf) = Some (False, m)" by blast
  from event_loop_Break[OF event_body_rejected[OF assms(2,3,4,5,6) m]] m
  show ?thesis by blast
qed

lemma group_scan_truncated:
  assumes wf: "wf_group_layout L" and "i < n"
    and "group_fixed_portion_is_within L grp (length buf)"
    and "rd_be16 buf (grp + gr_length L) = Some group_len"
    and tr: "spec_read_fields buf (grp + gr_group_name_len L) 2 = Inl TruncatedField"
  shows "\<exists>m. group_is_within L buf grp (length buf) = Some (False, m) \<and>
           group_loop L d n buf i (grp, group_index) =
             (\<lparr>final_i = i,
               outputs = [PrDebug 1 ''/* group %zu of %u: len=%zu offset=%zu */''] @
                 (if group_len mod 16 \<noteq> 0 then [Misaligned] else []) @
                 (if grp + group_len > length buf then [Warnx ''group ends after group data: group_end=%p > end=%p'']
                  else m @ [Warnx ''group exceeds group data length group=%p end=%p'']),
               stop_reason =
                 (if grp + group_len > length buf then EndsAfterTable else ExceedsTable)\<rparr>,
              group_index)"
proof -
  from group_truncated[OF wf tr] obtain m where
    m: "group_is_within L buf grp (length buf) = Some (False, m)" by blast
  from group_loop_Break[OF group_body_rejected[OF assms(2,3,4) m]] m
  show ?thesis by simp
qed

lemma tlbie_fields:
  "spec_read_fields tlbie_table 20 3 = Inr [(22, 9), (33, 5), (40, 0)]"
  by (simp add: spec_read_fields_3 spec_read_field_def tlbie_table_def tlbie_event_def eval_rd)

lemma tlbie_within:
  "event_is_within hv_24x7_layout tlbie_table 0 4096 =
     Some (True, [Warnx ''desc len not aligned %p''])"
  by (simp add: event_is_within_def tlbie_table_def tlbie_event_def eval_rd)

lemma tlb_group_within:
  "group_is_within hv_24x7_layout tlb_group_table 0 4096 = Some (True, [])"
  by (simp add: group_is_within_def tlb_group_table_def tlb_group_def eval_rd)

lemma zero_fields:
  "spec_read_fields (replicate 4096 0) 48 2 = Inl TruncatedField"
  by (simp_all add: spec_read_fields_2 spec_read_field_def eval_rd)
text \<open>
  C2, as claimed, does not hold for placeholder events. The first record of
  \<open>short_desc_placeholder_table\<close> has the description length word 1, on which the reader
  of the specification fails, and the event group record length 0: the event scan does
  not check the record, skips it and renders the record after it.
\<close>

theorem C2_placeholder_with_short_field_is_not_rejected:
  "spec_read_fields short_desc_placeholder_table (0 + ev_event_name_len hv_24x7_layout) 3 =
     Inl TruncatedField \<and>
   event_scan hv_24x7_layout (\<lambda>l. False) no_ctx 2 short_desc_placeholder_table =
     \<lparr>final_i = 2,
      outputs = [PrDebug 10 ''invalid event, skipping'',
                 EventComment 1 2 96 32,
                 Warnx ''desc len not aligned %p'',
                 Warnx ''desc len not aligned %p'',
                 Warnx ''desc len not aligned %p'',
                 EventName [0x48, 0x50, 0x4D, 0x5F, 0x54, 0x4C, 0x42, 0x49, 0x45],
                 EventLine 2 856 ''core'' ''0x0'',
                 EventLine 3 856 ''vcpu'' ''sibling_guest_id'',
                 EventLine 4 856 ''vcpu'' ''sibling_guest_id'',
                 EventLine 5 856 ''vcpu'' ''sibling_guest_id'',
                 EventLine 6 856 ''vcpu'' ''sibling_guest_id'',
                 PrDebug 2 ''event count ends before buffer end (offset=%zu, end=%zu bytes remaining=%zu)''],
      stop_reason = CountReached\<rparr>"
proof -
  have 1: "spec_read_fields short_desc_placeholder_table
             (0 + ev_event_name_len hv_24x7_layout) 3 = Inl TruncatedField"
    by (simp add: spec_read_fields_3 spec_read_field_def short_desc_placeholder_table_def
        tlbie_event_def eval_rd)
  have 2: "event_scan hv_24x7_layout (\<lambda>l. False) no_ctx 2 short_desc_placeholder_table =
     \<lparr>final_i = 2,
      outputs = [PrDebug 10 ''invalid event, skipping'',
                 EventComment 1 2 96 32,
                 Warnx ''desc len not aligned %p'',
                 Warnx ''desc len not aligned %p'',
                 Warnx ''desc len not aligned %p'',
                 EventName [0x48, 0x50, 0x4D, 0x5F, 0x54, 0x4C, 0x42, 0x49, 0x45],
                 EventLine 2 856 ''core'' ''0x0'',
                 EventLine 3 856 ''vcpu'' ''sibling_guest_id'',
                 EventLine 4 856 ''vcpu'' ''sibling_guest_id'',
                 EventLine 5 856 ''vcpu'' ''sibling_guest_id'',
                 EventLine 6 856 ''vcpu'' ''sibling_guest_id'',
                 PrDebug 2 ''event count ends before buffer end (offset=%zu, end=%zu bytes remaining=%zu)''],
      stop_reason = CountReached\<rparr>"
    by (simp add: event_scan_def eval_event short_desc_placeholder_table_def tlbie_event_def
        eval_rd)
  from 1 2 show ?thesis by (rule conjI)
qed

text \<open>
  C2, amended. The string fields of an event (name, description, long description) and
  of a group (name, description) are the fields that the reader of the specification
  finds when it is applied in sequence from the record's name length word: each length
  word is a big-endian 16-bit value \<open>l\<close>, the payload is the \<open>l - 2\<close> bytes right after
  the length word, and the next field starts at the field's start offset plus \<open>l\<close>. This
  holds for every record that the bounds check accepts. When the reader fails on a length
  below 2 for any field of the chain, the bounds check returns false; and a group
  record, or an event record with a non-zero event group record length, that a scan
  reaches with such a field is rejected: the scan stops at the record, the counter on
  exit is the record's index, and all that is written for the record is the scan's
  comment line, the misalignment note, the messages of the bounds check and one warning
  (or, when the record's length field leads beyond the table, the warning for that, before
  the bounds check is called). The group index is left as it was.
\<close>

theorem C2_string_fields_follow_the_reader:
  "(wf_event_layout L \<and> map_option fst (event_is_within L buf ev e) = Some True \<longrightarrow>
      (\<exists>f1 f2 f3.
         spec_read_fields buf (ev + ev_event_name_len L) 3 = Inr [f1, f2, f3] \<and>
         event_name L buf ev = Some f1 \<and> event_desc L buf ev = Some f2 \<and>
         event_long_desc L buf ev = Some f3)) \<and>
   (wf_group_layout L \<and> map_option fst (group_is_within L buf grp e) = Some True \<longrightarrow>
      (\<exists>f1 f2.
         spec_read_fields buf (grp + gr_group_name_len L) 2 = Inr [f1, f2] \<and>
         group_name L buf grp = Some f1 \<and> group_desc L buf grp = Some f2)) \<and>
   (wf_event_layout L \<and>
    spec_read_fields buf (ev + ev_event_name_len L) 3 = Inl TruncatedField \<longrightarrow>
      map_option fst (event_is_within L buf ev e) = Some False) \<and>
   (wf_group_layout L \<and>
    spec_read_fields buf (grp + gr_group_name_len L) 2 = Inl TruncatedField \<longrightarrow>
      map_option fst (group_is_within L buf grp e) = Some False) \<and>
   (wf_event_layout L \<and> i < n \<and> event_fixed_portion_is_within L ev (length buf) \<and>
    rd_be16 buf (ev + ev_length L) = Some ev_len \<and>
    rd_be16 buf (ev + ev_event_group_record_len L) = Some g \<and> g \<noteq> 0 \<and>
    spec_read_fields buf (ev + ev_event_name_len L) 3 = Inl TruncatedField \<longrightarrow>
      (\<exists>m. event_is_within L buf ev (length buf) = Some (False, m) \<and>
         event_loop L d ctx n buf i ev =
           \<lparr>final_i = i,
            outputs = [EventComment i n ev_len ev] @
              (if ev_len mod 16 \<noteq> 0 then [Misaligned] else []) @
              (if ev + ev_len > length buf then [Warnx ''event ends after event data: ev_end=%p > end=%p'']
               else m @ [Warnx ''event exceeds event data length event=%p end=%p'']),
            stop_reason =
              (if ev + ev_len > length buf then EndsAfterTable else ExceedsTable)\<rparr>)) \<and>
   (wf_group_layout L \<and> i < n \<and> group_fixed_portion_is_within L grp (length buf) \<and>
    rd_be16 buf (grp + gr_length L) = Some group_len \<and>
    spec_read_fields buf (grp + gr_group_name_len L) 2 = Inl TruncatedField \<longrightarrow>
      (\<exists>m. group_is_within L buf grp (length buf) = Some (False, m) \<and>
         group_loop L d n buf i (grp, group_index) =
           (\<lparr>final_i = i,
             outputs = [PrDebug 1 ''/* group %zu of %u: len=%zu offset=%zu */''] @
               (if group_len mod 16 \<noteq> 0 then [Misaligned] else []) @
               (if grp + group_len > length buf then [Warnx ''group ends after group data: group_end=%p > end=%p'']
                else m @ [Warnx ''group exceeds group data length group=%p end=%p'']),
             stop_reason =
               (if grp + group_len > length buf then EndsAfterTable else ExceedsTable)\<rparr>,
            group_index)))"
proof -
  have c1: "wf_event_layout L \<and> map_option fst (event_is_within L buf ev e) = Some True \<longrightarrow>
      (\<exists>f1 f2 f3.
         spec_read_fields buf (ev + ev_event_name_len L) 3 = Inr [f1, f2, f3] \<and>
         event_name L buf ev = Some f1 \<and> event_desc L buf ev = Some f2 \<and>
         event_long_desc L buf ev = Some f3)"
    using event_chain[of L buf ev e] by (auto simp: map_option_fst_Some)
  have c2: "wf_group_layout L \<and> map_option fst (group_is_within L buf grp e) = Some True \<longrightarrow>
      (\<exists>f1 f2.
         spec_read_fields buf (grp + gr_group_name_len L) 2 = Inr [f1, f2] \<and>
         group_name L buf grp = Some f1 \<and> group_desc L buf grp = Some f2)"
    using group_chain[of L buf grp e] by (auto simp: map_option_fst_Some)
  have c3: "wf_event_layout L \<and>
    spec_read_fields buf (ev + ev_event_name_len L) 3 = Inl TruncatedField \<longrightarrow>
      map_option fst (event_is_within L buf ev e) = Some False"
    using event_truncated[of L buf ev e] by (auto simp: map_option_fst_Some)
  have c4: "wf_group_layout L \<and>
    spec_read_fields buf (grp + gr_group_name_len L) 2 = Inl TruncatedField \<longrightarrow>
      map_option fst (group_is_within L buf grp e) = Some False"
    using group_truncated[of L buf grp e] by (auto simp: map_option_fst_Some)
  have c5: "wf_event_layout L \<and> i < n \<and> event_fixed_portion_is_within L ev (length buf) \<and>
    rd_be16 buf (ev + ev_length L) = Some ev_len \<and>
    rd_be16 buf (ev + ev_event_group_record_len L) = Some g \<and> g \<noteq> 0 \<and>
    spec_read_fields buf (ev + ev_event_name_len L) 3 = Inl TruncatedField \<longrightarrow>
      (\<exists>m. event_is_within L buf ev (length buf) = Some (False, m) \<and>
         event_loop L d ctx n buf i ev =
           \<lparr>final_i = i,
            outputs = [EventComment i n ev_len ev] @
              (if ev_len mod 16 \<noteq> 0 then [Misaligned] else []) @
              (if ev + ev_len > length buf then [Warnx ''event ends after event data: ev_end=%p > end=%p'']
               else m @ [Warnx ''event exceeds event data length event=%p end=%p'']),
            stop_reason =
              (if ev + ev_len > length buf then EndsAfterTable else ExceedsTable)\<rparr>)"
    using event_scan_truncated[of L i n ev buf ev_len g d ctx] by blast
  have c6: "wf_group_layout L \<and> i < n \<and> group_fixed_portion_is_within L grp (length buf) \<and>
    rd_be16 buf (grp + gr_length L) = Some group_len \<and>
    spec_read_fields buf (grp + gr_group_name_len L) 2 = Inl TruncatedField \<longrightarrow>
      (\<exists>m. group_is_within L buf grp (length buf) = Some (False, m) \<and>
         group_loop L d n buf i (grp, group_index) =
           (\<lparr>final_i = i,
             outputs = [PrDebug 1 ''/* group %zu of %u: len=%zu offset=%zu */''] @
               (if group_len mod 16 \<noteq> 0 then [Misaligned] else []) @
               (if grp + group_len > length buf then [Warnx ''group ends after group data: group_end=%p > end=%p'']
                else m @ [Warnx ''group exceeds group data length group=%p end=%p'']),
             stop_reason =
               (if grp + group_len > length buf then EndsAfterTable else ExceedsTable)\<rparr>,
            group_index))"
    using group_scan_truncated[of L i n grp buf group_len d group_index] by blast
  from c1 c2 c3 c4 c5 c6 show ?thesis by (intro conjI)
qed

lemma short_desc_event_facts:
  "event_fixed_portion_is_within hv_24x7_layout 0 (length short_desc_event_table)"
  "rd_be16 short_desc_event_table (0 + ev_length hv_24x7_layout) = Some 32"
  "rd_be16 short_desc_event_table (0 + ev_event_group_record_len hv_24x7_layout) = Some 8"
  "spec_read_fields short_desc_event_table (0 + ev_event_name_len hv_24x7_layout) 3 =
     Inl TruncatedField"
  "length short_desc_event_table = 4096"
  by (simp_all add: event_fixed_portion_is_within_def spec_read_fields_3 spec_read_field_def
      short_desc_event_table_def tlbie_event_def eval_rd)

lemma zero_group_facts:
  "group_fixed_portion_is_within hv_24x7_layout 0 (length (replicate 4096 (0::8 word)))"
  "rd_be16 (replicate 4096 0) (0 + gr_length hv_24x7_layout) = Some 0"
  "spec_read_fields (replicate 4096 0) (0 + gr_group_name_len hv_24x7_layout) 2 =
     Inl TruncatedField"
  by (simp_all add: group_fixed_portion_is_within_def spec_read_fields_2 spec_read_field_def
      eval_rd)

theorem C2_string_fields_follow_the_reader_witness:
  "(\<exists>f1 f2 f3.
      spec_read_fields tlbie_table (0 + ev_event_name_len hv_24x7_layout) 3 = Inr [f1, f2, f3] \<and>
      event_name hv_24x7_layout tlbie_table 0 = Some f1 \<and>
      event_desc hv_24x7_layout tlbie_table 0 = Some f2 \<and>
      event_long_desc hv_24x7_layout tlbie_table 0 = Some f3) \<and>
   (\<exists>f1 f2.
      spec_read_fields tlb_group_table (0 + gr_group_name_len hv_24x7_layout) 2 = Inr [f1, f2] \<and>
      group_name hv_24x7_layout tlb_group_table 0 = Some f1 \<and>
      group_desc hv_24x7_layout tlb_group_table 0 = Some f2) \<and>
   map_option fst (event_is_within hv_24x7_layout short_desc_event_table 0 32) = Some False \<and>
   map_option fst (group_is_within hv_24x7_layout (replicate 4096 0) 0 4096) = Some False \<and>
   (\<exists>m. event_is_within hv_24x7_layout short_desc_event_table 0 4096 = Some (False, m) \<and>
      event_loop hv_24x7_layout (\<lambda>l. False) no_ctx 2 short_desc_event_table 0 0 =
        \<lparr>final_i = 0,
         outputs = [EventComment 0 2 32 0] @ m @ [Warnx ''event exceeds event data length event=%p end=%p''],
         stop_reason = ExceedsTable\<rparr>) \<and>
   (\<exists>m. group_is_within hv_24x7_layout (replicate 4096 0) 0 4096 = Some (False, m) \<and>
      group_loop hv_24x7_layout (\<lambda>l. False) 1 (replicate 4096 0) 0 (0, [None]) =
        (\<lparr>final_i = 0,
          outputs = [PrDebug 1 ''/* group %zu of %u: len=%zu offset=%zu */''] @ m @
                    [Warnx ''group exceeds group data length group=%p end=%p''],
          stop_reason = ExceedsTable\<rparr>, [None]))"
proof -
  have a: "map_option fst (event_is_within hv_24x7_layout tlbie_table 0 4096) = Some True"
    by (simp add: tlbie_within)
  have b: "map_option fst (group_is_within hv_24x7_layout tlb_group_table 0 4096) = Some True"
    by (simp add: tlb_group_within)
  show ?thesis
    using C2_string_fields_follow_the_reader[where L = hv_24x7_layout and buf = tlbie_table
        and ev = 0 and e = 4096 and grp = 0]
      C2_string_fields_follow_the_reader[where L = hv_24x7_layout and buf = tlb_group_table
        and ev = 0 and e = 4096 and grp = 0]
      C2_string_fields_follow_the_reader[where L = hv_24x7_layout
        and buf = short_desc_event_table and ev = 0 and e = 32 and i = 0 and n = 2
        and ev_len = 32 and g = 8 and d = "\<lambda>l. False" and ctx = no_ctx]
      C2_string_fields_follow_the_reader[where L = hv_24x7_layout
        and buf = "replicate 4096 0" and grp = 0 and e = 4096 and i = 0 and n = 1
        and group_len = 0 and d = "\<lambda>l. False" and group_index = "[None]"]
      wf_hv_24x7_layout a b short_desc_event_facts zero_group_facts
    by simp
qed
subsection \<open>The group index\<close>










subsection \<open>Records with a short name length\<close>

text \<open>
  C7, as claimed, does not hold for placeholder events. The first record of
  \<open>placeholder_table\<close> has the name length word 0 and the event group record length 0:
  the event scan never checks it, skips it and renders the record after it.
\<close>

theorem C7_placeholder_with_short_name_is_not_rejected:
  "rd_be16 placeholder_table (0 + ev_event_name_len hv_24x7_layout) = Some 0 \<and>
   event_scan hv_24x7_layout (\<lambda>l. False) no_ctx 2 placeholder_table =
     \<lparr>final_i = 2,
      outputs = [PrDebug 10 ''invalid event, skipping'',
                 EventComment 1 2 96 32,
                 Warnx ''desc len not aligned %p'',
                 Warnx ''desc len not aligned %p'',
                 Warnx ''desc len not aligned %p'',
                 EventName [0x48, 0x50, 0x4D, 0x5F, 0x54, 0x4C, 0x42, 0x49, 0x45],
                 EventLine 2 856 ''core'' ''0x0'',
                 EventLine 3 856 ''vcpu'' ''sibling_guest_id'',
                 EventLine 4 856 ''vcpu'' ''sibling_guest_id'',
                 EventLine 5 856 ''vcpu'' ''sibling_guest_id'',
                 EventLine 6 856 ''vcpu'' ''sibling_guest_id'',
                 PrDebug 2 ''event count ends before buffer end (offset=%zu, end=%zu bytes remaining=%zu)''],
      stop_reason = CountReached\<rparr>"
  by (simp add: event_scan_def eval_event placeholder_table_def tlbie_event_def eval_rd)

lemma event_short_name:
  "rd_be16 buf (ev + ev_event_name_len L) = Some nl \<Longrightarrow> nl < 2 \<Longrightarrow>
   event_is_within L buf ev e = Some (False, [PrDebug 1 ''%s: name length too short: %d''])"
  by (simp add: event_is_within_def)

lemma group_short_name:
  "rd_be16 buf (grp + gr_group_name_len L) = Some nl \<Longrightarrow> nl < 2 \<Longrightarrow>
   group_is_within L buf grp e = Some (False, [PrDebug 1 ''%s: name length too short: %d''])"
  by (simp add: group_is_within_def)

lemma event_loop_short_name:
  assumes "i < n" and "event_fixed_portion_is_within L ev (length buf)"
    and "rd_be16 buf (ev + ev_length L) = Some ev_len"
    and "rd_be16 buf (ev + ev_event_group_record_len L) = Some egl" and "egl \<noteq> 0"
    and "rd_be16 buf (ev + ev_event_name_len L) = Some nl" and "nl < 2"
  shows "event_loop L d ctx n buf i ev =
     \<lparr>final_i = i,
      outputs = [EventComment i n ev_len ev] @
                (if ev_len mod 16 \<noteq> 0 then [Misaligned] else []) @
                (if ev + ev_len > length buf then [Warnx ''event ends after event data: ev_end=%p > end=%p'']
                 else [PrDebug 1 ''%s: name length too short: %d'',
                       Warnx ''event exceeds event data length event=%p end=%p'']),
      stop_reason = (if ev + ev_len > length buf then EndsAfterTable else ExceedsTable)\<rparr>"
proof -
  have w: "event_is_within L buf ev (length buf) =
      Some (False, [PrDebug 1 ''%s: name length too short: %d''])"
    using assms(6,7) by (rule event_short_name)
  show ?thesis
    using event_loop_Break[OF event_body_rejected[OF assms(1-5) w], of d ctx] by simp
qed

lemma group_loop_short_name:
  assumes "i < n" and "group_fixed_portion_is_within L grp (length buf)"
    and "rd_be16 buf (grp + gr_length L) = Some group_len"
    and "rd_be16 buf (grp + gr_group_name_len L) = Some nl" and "nl < 2"
  shows "group_loop L d n buf i (grp, gi) =
     (\<lparr>final_i = i,
       outputs = [PrDebug 1 ''/* group %zu of %u: len=%zu offset=%zu */''] @
                 (if group_len mod 16 \<noteq> 0 then [Misaligned] else []) @
                 (if grp + group_len > length buf then [Warnx ''group ends after group data: group_end=%p > end=%p'']
                  else [PrDebug 1 ''%s: name length too short: %d'',
                        Warnx ''group exceeds group data length group=%p end=%p'']),
       stop_reason = (if grp + group_len > length buf then EndsAfterTable else ExceedsTable)\<rparr>,
      gi)"
proof -
  have w: "group_is_within L buf grp (length buf) =
      Some (False, [PrDebug 1 ''%s: name length too short: %d''])"
    using assms(4,5) by (rule group_short_name)
  show ?thesis
    using group_loop_Break[OF group_body_rejected[OF assms(1-3) w], of d gi] by simp
qed

lemma event_scan_short_name:
  assumes reach: "event_loop L d ctx n buf 0 0 = printed before (event_loop L d ctx n buf i ev)"
    and "i < n" and "event_fixed_portion_is_within L ev (length buf)"
    and "rd_be16 buf (ev + ev_length L) = Some ev_len"
    and "rd_be16 buf (ev + ev_event_group_record_len L) = Some egl" and "egl \<noteq> 0"
    and "rd_be16 buf (ev + ev_event_name_len L) = Some nl" and "nl < 2"
  shows "event_scan L d ctx n buf =
     \<lparr>final_i = i,
      outputs = before @ [EventComment i n ev_len ev] @
                (if ev_len mod 16 \<noteq> 0 then [Misaligned] else []) @
                (if ev + ev_len > length buf then [Warnx ''event ends after event data: ev_end=%p > end=%p'']
                 else [PrDebug 1 ''%s: name length too short: %d'',
                       Warnx ''event exceeds event data length event=%p end=%p'']) @
                [count_mismatch],
      stop_reason = (if ev + ev_len > length buf then EndsAfterTable else ExceedsTable)\<rparr>"
  using assms(2)
  by (simp add: event_scan_def reach event_loop_short_name[OF assms(2-8)] printed_def)

text \<open>
  C7, amended. The bounds check of an event or group record returns false on a name
  length below 2 alone, whatever the rest of the buffer holds, with the level-1 debugging
  message \<open>name length too short\<close>. A group record, or an event record with a non-zero
  event group record length, that the scan reaches with such a name length ends the scan
  at that record. What the iteration writes is the scan's comment on the record (for
  events its index, the count, its length field and its offset), the misalignment note if
  the length is no multiple of 16, and then either the warning that the record ends
  after the table, when its length field says so (the bounds check is not called then),
  or the debugging message of the bounds check and the warning that the record exceeds
  the table. Nothing of the record is rendered and the group index is left as it was.
  The event scan, which has reached the record after writing \<open>before\<close>, then adds the
  warning about the count mismatch.
\<close>

theorem C7_short_name_is_rejected_when_checked:
  "(rd_be16 buf (ev + ev_event_name_len L) = Some nl \<and> nl < 2 \<longrightarrow>
      event_is_within L buf ev e =
        Some (False, [PrDebug 1 ''%s: name length too short: %d''])) \<and>
   (rd_be16 gbuf (grp + gr_group_name_len L) = Some gnl \<and> gnl < 2 \<longrightarrow>
      group_is_within L gbuf grp e =
        Some (False, [PrDebug 1 ''%s: name length too short: %d''])) \<and>
   (i < n \<and> event_fixed_portion_is_within L ev (length buf) \<and>
    rd_be16 buf (ev + ev_length L) = Some ev_len \<and>
    rd_be16 buf (ev + ev_event_group_record_len L) = Some egl \<and> egl \<noteq> 0 \<and>
    rd_be16 buf (ev + ev_event_name_len L) = Some nl \<and> nl < 2 \<longrightarrow>
      event_loop L d ctx n buf i ev =
        \<lparr>final_i = i,
         outputs = [EventComment i n ev_len ev] @
                   (if ev_len mod 16 \<noteq> 0 then [Misaligned] else []) @
                   (if ev + ev_len > length buf then [Warnx ''event ends after event data: ev_end=%p > end=%p'']
                    else [PrDebug 1 ''%s: name length too short: %d'',
                          Warnx ''event exceeds event data length event=%p end=%p'']),
         stop_reason = (if ev + ev_len > length buf then EndsAfterTable else ExceedsTable)\<rparr>) \<and>
   (event_loop L d ctx n buf 0 0 = printed before (event_loop L d ctx n buf i ev) \<and>
    i < n \<and> event_fixed_portion_is_within L ev (length buf) \<and>
    rd_be16 buf (ev + ev_length L) = Some ev_len \<and>
    rd_be16 buf (ev + ev_event_group_record_len L) = Some egl \<and> egl \<noteq> 0 \<and>
    rd_be16 buf (ev + ev_event_name_len L) = Some nl \<and> nl < 2 \<longrightarrow>
      event_scan L d ctx n buf =
        \<lparr>final_i = i,
         outputs = before @ [EventComment i n ev_len ev] @
                   (if ev_len mod 16 \<noteq> 0 then [Misaligned] else []) @
                   (if ev + ev_len > length buf then [Warnx ''event ends after event data: ev_end=%p > end=%p'']
                    else [PrDebug 1 ''%s: name length too short: %d'',
                          Warnx ''event exceeds event data length event=%p end=%p'']) @
                   [count_mismatch],
         stop_reason = (if ev + ev_len > length buf then EndsAfterTable else ExceedsTable)\<rparr>) \<and>
   (i < n \<and> group_fixed_portion_is_within L grp (length gbuf) \<and>
    rd_be16 gbuf (grp + gr_length L) = Some group_len \<and>
    rd_be16 gbuf (grp + gr_group_name_len L) = Some gnl \<and> gnl < 2 \<longrightarrow>
      group_loop L d n gbuf i (grp, gi) =
        (\<lparr>final_i = i,
          outputs = [PrDebug 1 ''/* group %zu of %u: len=%zu offset=%zu */''] @
                    (if group_len mod 16 \<noteq> 0 then [Misaligned] else []) @
                    (if grp + group_len > length gbuf
                     then [Warnx ''group ends after group data: group_end=%p > end=%p'']
                     else [PrDebug 1 ''%s: name length too short: %d'',
                           Warnx ''group exceeds group data length group=%p end=%p'']),
          stop_reason =
            (if grp + group_len > length gbuf then EndsAfterTable else ExceedsTable)\<rparr>,
         gi))"
proof -
  note c1 = event_short_name[of buf ev L nl e]
  note c2 = group_short_name[of gbuf grp L gnl e]
  note c3 = event_loop_short_name[of i n L ev buf ev_len egl nl d ctx]
  note c4 = event_scan_short_name[of L d ctx n buf before i ev ev_len egl nl]
  note c5 = group_loop_short_name[of i n L grp gbuf group_len gnl d gi]
  show ?thesis
    apply (intro conjI impI)
    subgoal using c1 by blast
    subgoal using c2 by blast
    subgoal using c3 by blast
    subgoal using c4 by blast
    subgoal using c5 by blast
    done
qed

theorem C7_short_name_is_rejected_when_checked_witness:
  "event_is_within hv_24x7_layout short_name_table 0 4096 =
     Some (False, [PrDebug 1 ''%s: name length too short: %d'']) \<and>
   group_is_within hv_24x7_layout (replicate 4096 0) 0 4096 =
     Some (False, [PrDebug 1 ''%s: name length too short: %d'']) \<and>
   event_loop hv_24x7_layout (\<lambda>l. False) no_ctx 1 short_name_table 0 0 =
     \<lparr>final_i = 0,
      outputs = [EventComment 0 1 32 0, PrDebug 1 ''%s: name length too short: %d'',
                 Warnx ''event exceeds event data length event=%p end=%p''],
      stop_reason = ExceedsTable\<rparr> \<and>
   event_scan hv_24x7_layout (\<lambda>l. False) no_ctx 1 short_name_table =
     \<lparr>final_i = 0,
      outputs = [EventComment 0 1 32 0, PrDebug 1 ''%s: name length too short: %d'',
                 Warnx ''event exceeds event data length event=%p end=%p'',
                 Warnx ''event buffer ended before listed # of events were parsed (got %zu, wanted %u)''],
      stop_reason = ExceedsTable\<rparr> \<and>
   group_loop hv_24x7_layout (\<lambda>l. False) 1 (replicate 4096 0) 0 (0, [None]) =
     (\<lparr>final_i = 0,
       outputs = [PrDebug 1 ''/* group %zu of %u: len=%zu offset=%zu */'',
                  PrDebug 1 ''%s: name length too short: %d'',
                  Warnx ''group exceeds group data length group=%p end=%p''],
       stop_reason = ExceedsTable\<rparr>, [None])"
proof -
  have e: "rd_be16 short_name_table (0 + ev_event_name_len hv_24x7_layout) = Some 1"
    "rd_be16 short_name_table (0 + ev_length hv_24x7_layout) = Some 32"
    "rd_be16 short_name_table (0 + ev_event_group_record_len hv_24x7_layout) = Some 8"
    "event_fixed_portion_is_within hv_24x7_layout 0 (length short_name_table)"
    "length short_name_table = 4096"
    by (simp_all add: short_name_table_def event_fixed_portion_is_within_def eval_rd)
  have g: "rd_be16 (replicate 4096 0) (0 + gr_group_name_len hv_24x7_layout) = Some 0"
    "rd_be16 (replicate 4096 0) (0 + gr_length hv_24x7_layout) = Some 0"
    "group_fixed_portion_is_within hv_24x7_layout 0 (length (replicate 4096 (0::byte)))"
    by (simp_all add: group_fixed_portion_is_within_def eval_rd)
  have r: "event_loop hv_24x7_layout (\<lambda>l. False) no_ctx 1 short_name_table 0 0 =
      printed [] (event_loop hv_24x7_layout (\<lambda>l. False) no_ctx 1 short_name_table 0 0)"
    by (simp add: printed_def)
  note inst = C7_short_name_is_rejected_when_checked[where L = hv_24x7_layout
        and buf = short_name_table and ev = 0 and nl = 1 and e = 4096 and ev_len = 32
        and egl = 8 and i = 0 and n = 1 and d = "\<lambda>l. False" and ctx = no_ctx
        and gbuf = "replicate 4096 0" and grp = 0 and gnl = 0 and group_len = 0
        and gi = "[None]" and before = "[]"]
  from inst[THEN conjunct1] e have 1:
    "event_is_within hv_24x7_layout short_name_table 0 4096 =
       Some (False, [PrDebug 1 ''%s: name length too short: %d''])" by simp
  from inst[THEN conjunct2, THEN conjunct1] g have 2:
    "group_is_within hv_24x7_layout (replicate 4096 0) 0 4096 =
       Some (False, [PrDebug 1 ''%s: name length too short: %d''])" by simp
  from inst[THEN conjunct2, THEN conjunct2, THEN conjunct1] e have 3:
    "event_loop hv_24x7_layout (\<lambda>l. False) no_ctx 1 short_name_table 0 0 =
     \<lparr>final_i = 0,
      outputs = [EventComment 0 1 32 0, PrDebug 1 ''%s: name length too short: %d'',
                 Warnx ''event exceeds event data length event=%p end=%p''],
      stop_reason = ExceedsTable\<rparr>" by simp
  from inst[THEN conjunct2, THEN conjunct2, THEN conjunct2, THEN conjunct1] e r have 4:
    "event_scan hv_24x7_layout (\<lambda>l. False) no_ctx 1 short_name_table =
     \<lparr>final_i = 0,
      outputs = [EventComment 0 1 32 0, PrDebug 1 ''%s: name length too short: %d'',
                 Warnx ''event exceeds event data length event=%p end=%p'',
                 Warnx ''event buffer ended before listed # of events were parsed (got %zu, wanted %u)''],
      stop_reason = ExceedsTable\<rparr>" by (simp add: count_mismatch_def)
  from inst[THEN conjunct2, THEN conjunct2, THEN conjunct2, THEN conjunct2] g have 5:
    "group_loop hv_24x7_layout (\<lambda>l. False) 1 (replicate 4096 0) 0 (0, [None]) =
     (\<lparr>final_i = 0,
       outputs = [PrDebug 1 ''/* group %zu of %u: len=%zu offset=%zu */'',
                  PrDebug 1 ''%s: name length too short: %d'',
                  Warnx ''group exceeds group data length group=%p end=%p''],
       stop_reason = ExceedsTable\<rparr>, [None])" by simp
  from 1 2 3 4 5 show ?thesis by (intro conjI)
qed
subsection \<open>How the scans end\<close>

text \<open>
  C6, as claimed, does not hold for the schema scan (the group scan has the same loop
  head). The loop checks the fixed portion before it looks at the counter and the offset.
  In \<open>schema_table_4080\<close> with one declared schema, the counter reaches the declared
  count while 16 bytes of the buffer remain, and the scan warns that the fixed portion is
  not within range. In \<open>schema_table_4096\<close> with two declared schemas, the buffer end is
  reached after one record, and the scan gives the same warning and no count mismatch.
\<close>

theorem C6_schema_scan_reports_differently:
  "length schema_table_4080 = 4096 \<and>
   schema_scan hv_24x7_layout (\<lambda>l. False) 1 schema_table_4080 =
     \<lparr>final_i = 1,
      outputs = [Warnx ''schema fixed portion is not within range''],
      stop_reason = FixedPortion\<rparr> \<and>
   length schema_table_4096 = 4096 \<and>
   schema_scan hv_24x7_layout (\<lambda>l. False) 2 schema_table_4096 =
     \<lparr>final_i = 1,
      outputs = [Warnx ''schema fixed portion is not within range''],
      stop_reason = FixedPortion\<rparr>"
  by (simp add: schema_scan_def schema_loop.simps schema_body_def
      schema_fixed_portion_is_within_def schema_is_within_def printed_def Let_def
      schema_table_4080_def schema_table_4096_def eval_rd)

lemma event_loop_count_reached:
  "n \<le> i \<Longrightarrow> p < length buf \<Longrightarrow>
   event_loop L d ctx n buf i p =
     \<lparr>final_i = i, outputs = [PrDebug 2 ''event count ends before buffer end (offset=%zu, end=%zu bytes remaining=%zu)''],
      stop_reason = CountReached\<rparr>"
  by (simp add: event_loop.simps event_body_def)

lemma schema_loop_count_reached:
  "n \<le> i \<Longrightarrow> p + grs_sizeof L < length buf \<Longrightarrow>
   schema_loop L d n buf i p =
     \<lparr>final_i = i, outputs = [PrDebug 2 ''schema count ends before buffer end (offset=%zu, bytes remaining=%zu)''],
      stop_reason = CountReached\<rparr>"
  by (simp add: schema_loop.simps schema_body_def schema_fixed_portion_is_within_def)

lemma group_loop_count_reached:
  "n \<le> i \<Longrightarrow> p + gr_sizeof L < length buf \<Longrightarrow>
   group_loop L d n buf i (p, gi) =
     (\<lparr>final_i = i, outputs = [PrDebug 2 ''group count ends before buffer end (offset=%zu, bytes remaining=%zu)''],
       stop_reason = CountReached\<rparr>, gi)"
  by (simp add: group_loop.simps group_body_def group_fixed_portion_is_within_def)

lemma event_body_CountReached:
  "event_body L d ctx n buf i p = Break outs CountReached \<Longrightarrow> n \<le> i"
  by (auto simp: event_body_def Let_def split: if_splits option.splits bool.splits prod.splits)

lemma event_loop_CountReached:
  "stop_reason (event_loop L d ctx n buf i p) = CountReached \<Longrightarrow>
   n \<le> final_i (event_loop L d ctx n buf i p)"
proof (induction L d ctx n buf i p rule: event_loop.induct)
  case (1 L d ctx n buf i p)
  show ?case
  proof (cases "event_body L d ctx n buf i p")
    case (Break outs s)
    with 1(2) event_body_CountReached[of L d ctx n buf i p outs] show ?thesis
      by (simp add: event_loop_Break)
  next
    case (Next outs p')
    with 1 show ?thesis by (simp add: event_loop_Next)
  qed
qed

lemma event_scan_count_reached:
  assumes "stop_reason (event_scan L d ctx n buf) = CountReached"
  shows "final_i (event_scan L d ctx n buf) = n \<and>
         event_scan L d ctx n buf = event_loop L d ctx n buf 0 0"
proof -
  from assms have s: "stop_reason (event_loop L d ctx n buf 0 0) = CountReached"
    by (simp add: event_scan_def Let_def split: if_splits)
  from event_loop_CountReached[OF s] event_loop_bound[of 0 L d ctx n buf 0]
  have f: "final_i (event_loop L d ctx n buf 0 0) = n" by simp
  show ?thesis using s f by (simp add: event_scan_def Let_def)
qed

lemma event_scan_buffer_end:
  assumes "stop_reason (event_loop L d ctx n buf 0 0) = BufferEnd"
    and "final_i (event_loop L d ctx n buf 0 0) < n"
  shows "event_scan L d ctx n buf =
     (event_loop L d ctx n buf 0 0)
       \<lparr>outputs := outputs (event_loop L d ctx n buf 0 0) @ [count_mismatch]\<rparr>"
  using assms by (simp add: event_scan_def Let_def)

lemma cm_neq [simp]:
  "count_mismatch \<noteq> Warnx ''schema fixed portion is not within range''"
  "count_mismatch \<noteq> Warnx ''schema ends after schema data: schema_end=%p > end=%p''"
  "count_mismatch \<noteq> Warnx ''schema exceeds schema data length schema=%p end=%p''"
  "count_mismatch \<noteq> Warnx ''schema exceeds it's own length schema=%p end=%p''"
  "count_mismatch \<noteq> Warnx ''schema ended before listed # of fields were parsed (got %zu, wanted %zu, offset %zu, length %zu)''"
  "count_mismatch \<noteq> Warnx ''group fixed portion is not within range''"
  "count_mismatch \<noteq> Warnx ''group ends after group data: group_end=%p > end=%p''"
  "count_mismatch \<noteq> Warnx ''group exceeds group data length group=%p end=%p''"
  "count_mismatch \<noteq> Warnx ''group exceeds it's own length group=%p end=%p''"
  "count_mismatch \<noteq> PrDebug l m"
  "count_mismatch \<noteq> Misaligned"
  "count_mismatch \<noteq> SchemaComment a b c e"
  "count_mismatch \<noteq> SchemaDump fx es"
  "count_mismatch \<noteq> GroupDump dt fx nm ds"
  by (simp_all add: count_mismatch_def)

lemma schema_is_within_cm [simp]:
  "schema_is_within L buf schema e = Some (b, m) \<Longrightarrow> (count_mismatch \<in> set m) = False"
  by (auto simp: schema_is_within_def split: option.splits if_splits)

lemma group_is_within_cm [simp]:
  "group_is_within L buf grp e = Some (b, m) \<Longrightarrow> (count_mismatch \<in> set m) = False"
  by (auto simp: group_is_within_def split: option.splits if_splits)

lemma print_schema_fields_no_mismatch:
  "print_schema_fields L buf schema len fec field i = Some (es, dbg, j) \<Longrightarrow>
   count_mismatch \<notin> set dbg"
proof (induction L buf schema len fec field i arbitrary: es dbg j
    rule: print_schema_fields.induct)
  case (1 L buf schema len fec field i)
  show ?case
  proof (cases "field - schema \<ge> len \<or> i \<ge> fec")
    case True
    with 1(2) show ?thesis
      by (subst (asm) print_schema_fields.simps) (auto split: if_splits)
  next
    case False
    with 1(2) obtain entry es' where
      e: "rd_bytes buf field (grs_field_sizeof L) = Some entry" and
      r: "print_schema_fields L buf schema len fec (field + grs_field_sizeof L) (i + 1) =
            Some (es', dbg, j)"
      by (subst (asm) print_schema_fields.simps)
         (auto split: if_splits option.splits prod.splits)
    from False have a: "\<not> len \<le> field - schema" "\<not> fec \<le> i" by simp_all
    from 1(1)[OF a e r] show ?thesis .
  qed
qed


lemma print_schema_fields_cm [simp]:
  "print_schema_fields L buf schema len fec field i = Some (es, dbg, j) \<Longrightarrow>
   (count_mismatch \<in> set dbg) = False"
  using print_schema_fields_no_mismatch by blast

lemma print_schema_no_mismatch_case:
  "case print_schema L buf schema of None \<Rightarrow> True
   | Some outs \<Rightarrow> count_mismatch \<notin> set outs"
  by (simp add: print_schema_def split: option.split prod.split)

lemma print_schema_cm [simp]:
  "print_schema L buf schema = Some outs \<Longrightarrow> (count_mismatch \<in> set outs) = False"
  using print_schema_no_mismatch_case[of L buf schema] by simp

lemma schema_body_no_mismatch_case:
  "case schema_body L d n buf i p of
     Break outs s \<Rightarrow> count_mismatch \<notin> set outs
   | Next outs p' \<Rightarrow> count_mismatch \<notin> set outs"
  by (simp add: schema_body_def Let_def split: option.split bool.split prod.split)

lemma schema_loop_no_mismatch:
  "count_mismatch \<notin> set (outputs (schema_loop L d n buf i p))"
proof (induction L d n buf i p rule: schema_loop.induct)
  case (1 L d n buf i p)
  show ?case
  proof (cases "schema_body L d n buf i p")
    case (Break outs s)
    with schema_body_no_mismatch_case[of L d n buf i p] show ?thesis
      by (simp add: schema_loop_Break)
  next
    case (Next outs p')
    with 1[OF Next] schema_body_no_mismatch_case[of L d n buf i p] show ?thesis
      by (simp add: schema_loop_Next)
  qed
qed

lemma print_group_no_mismatch_case:
  "case print_group L buf grp of None \<Rightarrow> True
   | Some outs \<Rightarrow> count_mismatch \<notin> set outs"
  by (simp add: print_group_def split: option.split prod.split)

lemma print_group_cm [simp]:
  "print_group L buf grp = Some outs \<Longrightarrow> (count_mismatch \<in> set outs) = False"
  using print_group_no_mismatch_case[of L buf grp] by simp

lemma group_body_no_mismatch_case:
  "case group_body L d n buf i st of
     Break outs s \<Rightarrow> count_mismatch \<notin> set outs
   | Next outs st' \<Rightarrow> count_mismatch \<notin> set outs"
  by (cases st) (simp add: group_body_def Let_def split: option.split bool.split prod.split)

lemma group_loop_no_mismatch:
  "count_mismatch \<notin> set (outputs (fst (group_loop L d n buf i st)))"
proof (induction L d n buf i st rule: group_loop.induct)
  case (1 L d n buf i st)
  show ?case
  proof (cases "group_body L d n buf i st")
    case (Break outs s)
    with group_body_no_mismatch_case[of L d n buf i st] show ?thesis
      by (simp add: group_loop_Break)
  next
    case (Next outs st')
    with 1[OF Next] group_body_no_mismatch_case[of L d n buf i st] show ?thesis
      by (simp add: group_loop_Next)
  qed
qed

text \<open>
  C6, amended. In the event scan, an iteration that finds the counter at (or beyond) the
  declared count while bytes remain ends the loop with a level-2 debugging note and
  nothing else; a scan that ends this way has run exactly the declared number of
  iterations and prints no count mismatch. When the event loop ends at the end of the
  buffer before the declared count is reached, the scan returns what the loop printed,
  followed by the count mismatch warning. Whatever an iteration printed for a record
  stays in front of everything printed later. The schema and group scans end in the same
  way on the declared count when more bytes than a fixed portion remain, and they never
  print a count mismatch.
\<close>

theorem C6_terminal_states_of_the_scans:
  "(n \<le> i \<and> p < length buf \<longrightarrow>
      event_loop L d ctx n buf i p =
        \<lparr>final_i = i, outputs = [PrDebug 2 ''event count ends before buffer end (offset=%zu, end=%zu bytes remaining=%zu)''],
         stop_reason = CountReached\<rparr>) \<and>
   (stop_reason (event_scan L d ctx n buf) = CountReached \<longrightarrow>
      final_i (event_scan L d ctx n buf) = n \<and>
      event_scan L d ctx n buf = event_loop L d ctx n buf 0 0) \<and>
   (stop_reason (event_loop L d ctx n buf 0 0) = BufferEnd \<and>
    final_i (event_loop L d ctx n buf 0 0) < n \<longrightarrow>
      event_scan L d ctx n buf =
        (event_loop L d ctx n buf 0 0)
          \<lparr>outputs := outputs (event_loop L d ctx n buf 0 0) @ [count_mismatch]\<rparr>) \<and>
   (event_body L d ctx n buf i p = Next outs p' \<longrightarrow>
      outputs (event_loop L d ctx n buf i p) =
        outs @ outputs (event_loop L d ctx n buf (i + 1) p')) \<and>
   (n \<le> i \<and> p + grs_sizeof L < length buf \<longrightarrow>
      schema_loop L d n buf i p =
        \<lparr>final_i = i, outputs = [PrDebug 2 ''schema count ends before buffer end (offset=%zu, bytes remaining=%zu)''],
         stop_reason = CountReached\<rparr>) \<and>
   (n \<le> i \<and> p + gr_sizeof L < length buf \<longrightarrow>
      group_loop L d n buf i (p, gi) =
        (\<lparr>final_i = i, outputs = [PrDebug 2 ''group count ends before buffer end (offset=%zu, bytes remaining=%zu)''],
          stop_reason = CountReached\<rparr>, gi)) \<and>
   count_mismatch \<notin> set (outputs (schema_scan L d n buf)) \<and>
   count_mismatch \<notin> set (outputs (fst (group_scan L d n buf)))"
proof -
  have c1: "n \<le> i \<and> p < length buf \<longrightarrow>
      event_loop L d ctx n buf i p =
        \<lparr>final_i = i, outputs = [PrDebug 2 ''event count ends before buffer end (offset=%zu, end=%zu bytes remaining=%zu)''],
         stop_reason = CountReached\<rparr>"
    using event_loop_count_reached[of n i p buf L d ctx] by simp
  have c2: "stop_reason (event_scan L d ctx n buf) = CountReached \<longrightarrow>
      final_i (event_scan L d ctx n buf) = n \<and>
      event_scan L d ctx n buf = event_loop L d ctx n buf 0 0"
    using event_scan_count_reached[of L d ctx n buf] by simp
  have c3: "stop_reason (event_loop L d ctx n buf 0 0) = BufferEnd \<and>
    final_i (event_loop L d ctx n buf 0 0) < n \<longrightarrow>
      event_scan L d ctx n buf =
        (event_loop L d ctx n buf 0 0)
          \<lparr>outputs := outputs (event_loop L d ctx n buf 0 0) @ [count_mismatch]\<rparr>"
    using event_scan_buffer_end[of L d ctx n buf] by simp
  have c4: "event_body L d ctx n buf i p = Next outs p' \<longrightarrow>
      outputs (event_loop L d ctx n buf i p) =
        outs @ outputs (event_loop L d ctx n buf (i + 1) p')"
    by (simp add: event_loop_Next)
  have c5: "n \<le> i \<and> p + grs_sizeof L < length buf \<longrightarrow>
      schema_loop L d n buf i p =
        \<lparr>final_i = i, outputs = [PrDebug 2 ''schema count ends before buffer end (offset=%zu, bytes remaining=%zu)''],
         stop_reason = CountReached\<rparr>"
    using schema_loop_count_reached[of n i p L buf d] by simp
  have c6: "n \<le> i \<and> p + gr_sizeof L < length buf \<longrightarrow>
      group_loop L d n buf i (p, gi) =
        (\<lparr>final_i = i, outputs = [PrDebug 2 ''group count ends before buffer end (offset=%zu, bytes remaining=%zu)''],
          stop_reason = CountReached\<rparr>, gi)"
    using group_loop_count_reached[of n i p L buf d gi] by simp
  have c7: "count_mismatch \<notin> set (outputs (schema_scan L d n buf))"
    unfolding schema_scan_def by (rule schema_loop_no_mismatch)
  have c8: "count_mismatch \<notin> set (outputs (fst (group_scan L d n buf)))"
    unfolding group_scan_def by (rule group_loop_no_mismatch)
  from c1 c2 c3 c4 c5 c6 c7 c8 show ?thesis by (intro conjI)
qed


lemma tlbie_scan:
  "event_scan hv_24x7_layout (\<lambda>l. False) no_ctx 1 tlbie_table =
     \<lparr>final_i = 1,
      outputs = [EventComment 0 1 96 0,
                 Warnx ''desc len not aligned %p'',
                 Warnx ''desc len not aligned %p'',
                 Warnx ''desc len not aligned %p'',
                 EventName [0x48, 0x50, 0x4D, 0x5F, 0x54, 0x4C, 0x42, 0x49, 0x45],
                 EventLine 2 856 ''core'' ''0x0'',
                 EventLine 3 856 ''vcpu'' ''sibling_guest_id'',
                 EventLine 4 856 ''vcpu'' ''sibling_guest_id'',
                 EventLine 5 856 ''vcpu'' ''sibling_guest_id'',
                 EventLine 6 856 ''vcpu'' ''sibling_guest_id'',
                 PrDebug 2 ''event count ends before buffer end (offset=%zu, end=%zu bytes remaining=%zu)''],
      stop_reason = CountReached\<rparr>"
  by (simp add: event_scan_def eval_event tlbie_table_def tlbie_event_def eval_rd)

lemma full_page_loop:
  "event_loop hv_24x7_layout (\<lambda>l. False) no_ctx 2 full_page_event_table 0 0 =
     \<lparr>final_i = 1,
      outputs = [EventComment 0 2 4096 0,
                 Warnx ''desc len not aligned %p'',
                 Warnx ''desc len not aligned %p'',
                 Warnx ''desc len not aligned %p'',
                 EventName [0x48, 0x50, 0x4D, 0x5F, 0x54, 0x4C, 0x42, 0x49, 0x45],
                 EventLine 2 856 ''core'' ''0x0'',
                 EventLine 3 856 ''vcpu'' ''sibling_guest_id'',
                 EventLine 4 856 ''vcpu'' ''sibling_guest_id'',
                 EventLine 5 856 ''vcpu'' ''sibling_guest_id'',
                 EventLine 6 856 ''vcpu'' ''sibling_guest_id''],
      stop_reason = BufferEnd\<rparr>"
  by (simp add: eval_event full_page_event_table_def eval_rd)

lemma placeholder_body:
  "event_body hv_24x7_layout (\<lambda>l. False) no_ctx 2 placeholder_table 0 0 =
     Next [PrDebug 10 ''invalid event, skipping''] 32"
  by (simp add: event_body_def event_fixed_portion_is_within_def placeholder_table_def
      tlbie_event_def eval_rd)

theorem C6_terminal_states_of_the_scans_witness:
  "event_loop hv_24x7_layout (\<lambda>l. False) no_ctx 1 tlbie_table 1 96 =
     \<lparr>final_i = 1, outputs = [PrDebug 2 ''event count ends before buffer end (offset=%zu, end=%zu bytes remaining=%zu)''],
      stop_reason = CountReached\<rparr> \<and>
   final_i (event_scan hv_24x7_layout (\<lambda>l. False) no_ctx 1 tlbie_table) = 1 \<and>
   event_scan hv_24x7_layout (\<lambda>l. False) no_ctx 1 tlbie_table =
     event_loop hv_24x7_layout (\<lambda>l. False) no_ctx 1 tlbie_table 0 0 \<and>
   event_scan hv_24x7_layout (\<lambda>l. False) no_ctx 2 full_page_event_table =
     \<lparr>final_i = 1,
      outputs = [EventComment 0 2 4096 0,
                 Warnx ''desc len not aligned %p'',
                 Warnx ''desc len not aligned %p'',
                 Warnx ''desc len not aligned %p'',
                 EventName [0x48, 0x50, 0x4D, 0x5F, 0x54, 0x4C, 0x42, 0x49, 0x45],
                 EventLine 2 856 ''core'' ''0x0'',
                 EventLine 3 856 ''vcpu'' ''sibling_guest_id'',
                 EventLine 4 856 ''vcpu'' ''sibling_guest_id'',
                 EventLine 5 856 ''vcpu'' ''sibling_guest_id'',
                 EventLine 6 856 ''vcpu'' ''sibling_guest_id'',
                 count_mismatch],
      stop_reason = BufferEnd\<rparr> \<and>
   outputs (event_loop hv_24x7_layout (\<lambda>l. False) no_ctx 2 placeholder_table 0 0) =
     [PrDebug 10 ''invalid event, skipping''] @
     outputs (event_loop hv_24x7_layout (\<lambda>l. False) no_ctx 2 placeholder_table (0 + 1) 32) \<and>
   schema_loop hv_24x7_layout (\<lambda>l. False) 0 (replicate 4096 0) 0 0 =
     \<lparr>final_i = 0, outputs = [PrDebug 2 ''schema count ends before buffer end (offset=%zu, bytes remaining=%zu)''],
      stop_reason = CountReached\<rparr> \<and>
   group_loop hv_24x7_layout (\<lambda>l. False) 0 (replicate 4096 0) 0 (0, []) =
     (\<lparr>final_i = 0, outputs = [PrDebug 2 ''group count ends before buffer end (offset=%zu, bytes remaining=%zu)''],
       stop_reason = CountReached\<rparr>, [])"
proof -
  have len: "(1::nat) \<le> 1 \<and> 96 < length tlbie_table"
    by (simp add: tlbie_table_def tlbie_event_def)
  have zlen: "(0::nat) \<le> 0 \<and> 0 + grs_sizeof hv_24x7_layout < length (replicate 4096 (0::byte))"
    "(0::nat) \<le> 0 \<and> 0 + gr_sizeof hv_24x7_layout < length (replicate 4096 (0::byte))"
    by (simp_all add: hv_24x7_layout_def)
  note t1 = C6_terminal_states_of_the_scans[where L = hv_24x7_layout and d = "\<lambda>l. False"
        and ctx = no_ctx and n = 1 and buf = tlbie_table and i = 1 and p = 96]
  note t2 = C6_terminal_states_of_the_scans[where L = hv_24x7_layout and d = "\<lambda>l. False"
        and ctx = no_ctx and n = 2 and buf = full_page_event_table]
  note t3 = C6_terminal_states_of_the_scans[where L = hv_24x7_layout and d = "\<lambda>l. False"
        and ctx = no_ctx and n = 2 and buf = placeholder_table and i = 0 and p = 0
        and outs = "[PrDebug 10 ''invalid event, skipping'']" and p' = 32]
  note t4 = C6_terminal_states_of_the_scans[where L = hv_24x7_layout and d = "\<lambda>l. False"
        and n = 0 and buf = "replicate 4096 0" and i = 0 and p = 0 and gi = "[]"]
  from t1 len have a: "event_loop hv_24x7_layout (\<lambda>l. False) no_ctx 1 tlbie_table 1 96 =
     \<lparr>final_i = 1, outputs = [PrDebug 2 ''event count ends before buffer end (offset=%zu, end=%zu bytes remaining=%zu)''],
      stop_reason = CountReached\<rparr>"
    by blast
  have "stop_reason (event_scan hv_24x7_layout (\<lambda>l. False) no_ctx 1 tlbie_table) = CountReached"
    using tlbie_scan by simp
  with t1 have b: "final_i (event_scan hv_24x7_layout (\<lambda>l. False) no_ctx 1 tlbie_table) = 1 \<and>
      event_scan hv_24x7_layout (\<lambda>l. False) no_ctx 1 tlbie_table =
        event_loop hv_24x7_layout (\<lambda>l. False) no_ctx 1 tlbie_table 0 0"
    by blast
  have "stop_reason (event_loop hv_24x7_layout (\<lambda>l. False) no_ctx 2 full_page_event_table 0 0) =
      BufferEnd \<and>
    final_i (event_loop hv_24x7_layout (\<lambda>l. False) no_ctx 2 full_page_event_table 0 0) < 2"
    by (simp add: full_page_loop)
  with t2 have "event_scan hv_24x7_layout (\<lambda>l. False) no_ctx 2 full_page_event_table =
      (event_loop hv_24x7_layout (\<lambda>l. False) no_ctx 2 full_page_event_table 0 0)
        \<lparr>outputs := outputs (event_loop hv_24x7_layout (\<lambda>l. False) no_ctx 2
            full_page_event_table 0 0) @ [count_mismatch]\<rparr>"
    by blast
  then have c: "event_scan hv_24x7_layout (\<lambda>l. False) no_ctx 2 full_page_event_table =
     \<lparr>final_i = 1,
      outputs = [EventComment 0 2 4096 0,
                 Warnx ''desc len not aligned %p'',
                 Warnx ''desc len not aligned %p'',
                 Warnx ''desc len not aligned %p'',
                 EventName [0x48, 0x50, 0x4D, 0x5F, 0x54, 0x4C, 0x42, 0x49, 0x45],
                 EventLine 2 856 ''core'' ''0x0'',
                 EventLine 3 856 ''vcpu'' ''sibling_guest_id'',
                 EventLine 4 856 ''vcpu'' ''sibling_guest_id'',
                 EventLine 5 856 ''vcpu'' ''sibling_guest_id'',
                 EventLine 6 856 ''vcpu'' ''sibling_guest_id'',
                 count_mismatch],
      stop_reason = BufferEnd\<rparr>"
    by (simp add: full_page_loop)
  from t3 placeholder_body have e:
    "outputs (event_loop hv_24x7_layout (\<lambda>l. False) no_ctx 2 placeholder_table 0 0) =
     [PrDebug 10 ''invalid event, skipping''] @
     outputs (event_loop hv_24x7_layout (\<lambda>l. False) no_ctx 2 placeholder_table (0 + 1) 32)"
    by blast
  from t4 zlen(1) have f: "schema_loop hv_24x7_layout (\<lambda>l. False) 0 (replicate 4096 0) 0 0 =
     \<lparr>final_i = 0, outputs = [PrDebug 2 ''schema count ends before buffer end (offset=%zu, bytes remaining=%zu)''],
      stop_reason = CountReached\<rparr>"
    by blast
  from t4 zlen(2) have g: "group_loop hv_24x7_layout (\<lambda>l. False) 0 (replicate 4096 0) 0 (0, []) =
     (\<lparr>final_i = 0, outputs = [PrDebug 2 ''group count ends before buffer end (offset=%zu, bytes remaining=%zu)''],
       stop_reason = CountReached\<rparr>, [])"
    by blast
  from a b c e f g show ?thesis by (intro conjI) blast+
qed
subsection \<open>The program as a whole\<close>

lemma main_short_page_0:
  "length input < 4096 \<Longrightarrow> main L d base input = (start_debug, Exit 1)"
  by (simp add: main_def fread_at_def Let_def)

lemma main_short_schema_table:
  assumes "4096 \<le> length input" and "read_page_0 L (take 4096 input) = Some h"
    and "length (schema_table h input) \<noteq> schema_data_len h * 4096"
  shows "main L d base input = (start_debug @ header_debug, Exit 3)"
  using assms by (simp add: main_def fread_at_def Let_def)

lemma scan_groups_overflow:
  "group_data_len h < length (group_table h input) \<Longrightarrow>
   scan_groups L d base h input outs = (outs, Undefined_behaviour)"
  by (simp add: scan_groups_def Let_def)

lemma scan_groups_defined:
  assumes "scan_groups L d base h input outs = (outs', Exit 0)"
  shows "group_data_len h = 0 \<and> group_table h input = []"
proof -
  from assms have le: "length (group_table h input) \<le> group_data_len h"
    and eq: "length (group_table h input) = group_data_len h * 4096"
    by (auto simp: scan_groups_def Let_def split: if_splits)
  from le eq have "group_data_len h = 0" by simp
  with eq show ?thesis by simp
qed

lemma main_Exit_0:
  assumes "main L d base input = (outs, Exit 0)"
  shows "\<exists>h. 4096 \<le> length input \<and> read_page_0 L (take 4096 input) = Some h \<and>
           length (schema_table h input) = schema_data_len h * 4096 \<and>
           group_data_len h = 0 \<and> group_table h input = [] \<and>
           length (event_table h input) = event_data_len h * 4096"
proof -
  from assms have len: "4096 \<le> length input"
    by (auto simp: main_def fread_at_def Let_def split: if_splits)
  from assms len obtain h where h: "read_page_0 L (take 4096 input) = Some h"
    by (auto simp: main_def fread_at_def Let_def split: if_splits option.splits)
  from assms len h have s: "length (schema_table h input) = schema_data_len h * 4096"
    and g: "scan_groups L d base h input
              (start_debug @ header_debug @
               outputs (schema_scan L d (schema_entry_count h) (schema_table h input))) =
            (outs, Exit 0)"
    by (auto simp: main_def fread_at_def Let_def split: if_splits)
  from scan_groups_defined[OF g] have g0: "group_data_len h = 0" "group_table h input = []"
    by simp_all
  obtain r gi where rg: "group_scan L d (group_entry_count h) [] = (r, gi)"
    by (cases "group_scan L d (group_entry_count h) []")
  from g g0 rg have e: "\<exists>p. scan_events L d base h input p gi = (outs, Exit 0)"
    by (auto simp: scan_groups_def Let_def split: if_splits)
  then have el: "length (event_table h input) = event_data_len h * 4096"
    by (auto simp: scan_events_def Let_def split: if_splits)
  show ?thesis
    using len h s g0 el by simp
qed

lemma table_lengths:
  "length catalog_page_0 = 4096" "length schema_table_4080 = 4096"
  "length tlb_group_table = 4096" "length tlbie_table = 4096"
  by (simp_all add: catalog_page_0_def schema_table_4080_def tlb_group_table_def tlb_group_def
      tlbie_table_def tlbie_event_def)

lemma catalog_page: "fread_at catalog_file 0 4096 = catalog_page_0"
  by (simp add: fread_at_def catalog_file_def table_lengths)

lemma catalog_read_page_0: "read_page_0 hv_24x7_layout catalog_page_0 = Some catalog_header"
  by (simp add: read_page_0_def catalog_page_0_def catalog_header_def eval_rd)

lemma catalog_tables:
  "schema_table catalog_header catalog_file = schema_table_4080"
  "group_table catalog_header catalog_file = tlb_group_table"
  "event_table catalog_header catalog_file = tlbie_table"
  by (simp_all add: schema_table_def group_table_def event_table_def fread_at_def
      catalog_header_def catalog_file_def table_lengths)

lemma schema_4080_scan:
  "schema_scan hv_24x7_layout (\<lambda>l. False) 1 schema_table_4080 =
     \<lparr>final_i = 1,
      outputs = [Warnx ''schema fixed portion is not within range''],
      stop_reason = FixedPortion\<rparr>"
  by (simp add: schema_scan_def schema_loop.simps schema_body_def
      schema_fixed_portion_is_within_def schema_is_within_def printed_def Let_def
      schema_table_4080_def eval_rd)

lemma catalog_header_fields:
  "schema_data_len catalog_header = 1" "schema_entry_count catalog_header = 1"
  "group_data_len catalog_header = 1" "group_entry_count catalog_header = 1"
  "event_data_len catalog_header = 1" "event_entry_count catalog_header = 1"
  by (simp_all add: catalog_header_def)

text \<open>
  C8 does not hold for the group table. \<open>main\<close> allocates the buffers of the schema and
  event tables with their byte lengths, but the buffer of the group table with
  \<open>malloc(group_data_len)\<close>, the number of pages, and then reads \<open>group_data_len * 4096\<close>
  bytes into it. \<open>catalog_file\<close> has four full pages and its header declares one page for
  each table: the page of the schema table is read and scanned, then the 4096 bytes of
  the group table are read into a buffer of one byte. The run does not come to the group
  scan or to the event table, and does not end with a status.
\<close>

theorem C8_group_table_overflows_its_buffer:
  "length catalog_file = 4 * 4096 \<and>
   read_page_0 hv_24x7_layout (fread_at catalog_file 0 4096) = Some catalog_header \<and>
   group_data_len catalog_header = 1 \<and>
   length (group_table catalog_header catalog_file) = group_data_len catalog_header * 4096 \<and>
   main hv_24x7_layout (\<lambda>l. False) 16 catalog_file =
     (start_debug @ header_debug @ [Warnx ''schema fixed portion is not within range''],
      Undefined_behaviour)"
proof -
  have 1: "length catalog_file = 4 * 4096"
    by (simp add: catalog_file_def table_lengths)
  have 2: "read_page_0 hv_24x7_layout (fread_at catalog_file 0 4096) = Some catalog_header"
    by (simp add: catalog_page catalog_read_page_0)
  have 3: "group_data_len catalog_header = 1"
    by (simp add: catalog_header_def)
  have 4: "length (group_table catalog_header catalog_file) =
      group_data_len catalog_header * 4096"
    by (simp add: catalog_tables table_lengths 3)
  have 5: "scan_groups hv_24x7_layout (\<lambda>l. False) 16 catalog_header catalog_file
             (start_debug @ header_debug @ [Warnx ''schema fixed portion is not within range'']) =
           (start_debug @ header_debug @ [Warnx ''schema fixed portion is not within range''],
            Undefined_behaviour)"
    by (rule scan_groups_overflow) (simp add: catalog_tables table_lengths 3)
  have 6: "main hv_24x7_layout (\<lambda>l. False) 16 catalog_file =
     (start_debug @ header_debug @ [Warnx ''schema fixed portion is not within range''],
      Undefined_behaviour)"
    using 5 schema_4080_scan
    by (simp add: main_def Let_def catalog_page table_lengths catalog_read_page_0
        catalog_tables catalog_header_fields)
  from 1 2 3 4 6 show ?thesis by (intro conjI)
qed
subsection \<open>What the bounds checks bound\<close>

text \<open>
  \<open>event_is_within\<close> compares the record's start plus the sum of the length words with
  the boundary. The string chain does not start at the record's start but at the name
  length word, \<open>ev_event_name_len\<close> bytes into the record, so the long description ends
  at \<open>ev + ev_remainder L - 2 + nl + dl + ldl\<close>: the check bounds a sum that is smaller
  than the offset where the strings end.
\<close>

lemma event_accepted_bounds:
  assumes "event_is_within L buf ev e = Some (True, m)"
  shows "\<exists>nl dl ldl.
           rd_be16 buf (ev + ev_event_name_len L) = Some nl \<and>
           event_long_desc L buf ev = Some (ev + ev_remainder L + nl + dl, ldl - 2) \<and>
           2 \<le> ldl \<and> ev + nl + dl + ldl \<le> e"
proof -
  from assms obtain nl dl ldl where
    nl: "rd_be16 buf (ev + ev_event_name_len L) = Some nl" "2 \<le> nl" and
    dl: "rd_be16 buf (ev + ev_remainder L + nl - 2) = Some dl" "2 \<le> dl" and
    ldl: "rd_be16 buf (ev + ev_remainder L + nl + dl - 2) = Some ldl" "2 \<le> ldl" and
    b: "ev + nl + dl + ldl \<le> e"
    by (rule event_is_within_True)
  have "event_long_desc L buf ev = Some (ev + ev_remainder L + nl + dl, ldl - 2)"
    using nl dl ldl rd_be16_lt[OF ldl(1)] by (simp add: event_long_desc_def size_t_minus2)
  with nl ldl b show ?thesis by blast
qed

text \<open>
  C1 does not hold of the code. In \<open>overlong_name_table\<close> the bounds check of the event
  scan passes the comparison of the name length with the table end (0 + 4096 is not
  greater than 4096) and then reads the description's length word at offset 4116 of the
  4096-byte table. In \<open>long_tail_table\<close> the record at offset 4048 passes both bounds
  checks, against the table end and against its own length 48, although its long
  description is the 28 bytes from offset 4088, which end 20 bytes beyond the record and
  beyond the table; the verbose dump, whose call of \<open>domain_to_string\<close> is defined for
  the record's domain code, reads them.
\<close>

theorem C1_reads_beyond_the_table_end:
  "length overlong_name_table = 4096 \<and>
   event_is_within hv_24x7_layout overlong_name_table 0 4096 = None \<and>
   event_scan hv_24x7_layout (\<lambda>l. False) no_ctx 1 overlong_name_table =
     \<lparr>final_i = 0, outputs = [EventComment 0 1 4096 0], stop_reason = Undefined\<rparr> \<and>
   length long_tail_table = 4096 \<and>
   rd_be16 long_tail_table (4048 + ev_length hv_24x7_layout) = Some 48 \<and>
   event_is_within hv_24x7_layout long_tail_table 4048 4096 =
     Some (True, [Warnx ''desc len not aligned %p'']) \<and>
   event_is_within hv_24x7_layout long_tail_table 4048 (4048 + 48) =
     Some (True, [Warnx ''desc len not aligned %p'']) \<and>
   event_long_desc hv_24x7_layout long_tail_table 4048 = Some (4088, 28) \<and>
   rd_bytes long_tail_table 4088 28 = None \<and>
   rd_u8 long_tail_table (4048 + ev_domain hv_24x7_layout) = Some 7 \<and>
   domain_to_string 7 1024 = Some (UnknownDomain 7) \<and>
   event_scan hv_24x7_layout verbose no_ctx 2 long_tail_table =
     \<lparr>final_i = 1,
      outputs = [PrDebug 10 ''invalid event, skipping'', EventComment 1 2 48 4048,
                 Warnx ''desc len not aligned %p'',
                 Warnx ''desc len not aligned %p'',
                 Warnx ''desc len not aligned %p'',
                 PrDebug 1 ''%s: start=%p + nl=%u + dl=%u + ldl=%u > end=%p'',
                 Warnx ''event crosses page boundary''],
      stop_reason = Undefined\<rparr>"
proof -
  have a: "length overlong_name_table = 4096"
    by (simp add: overlong_name_table_def)
  have b: "event_is_within hv_24x7_layout overlong_name_table 0 4096 = None"
    by (simp add: event_is_within_def overlong_name_table_def eval_rd)
  have c: "event_scan hv_24x7_layout (\<lambda>l. False) no_ctx 1 overlong_name_table =
     \<lparr>final_i = 0, outputs = [EventComment 0 1 4096 0], stop_reason = Undefined\<rparr>"
    by (simp add: event_scan_def event_loop.simps event_body_def Let_def
        event_fixed_portion_is_within_def event_is_within_def overlong_name_table_def eval_rd)
  have d: "length long_tail_table = 4096"
    by (simp add: long_tail_table_def)
  have e: "rd_be16 long_tail_table (4048 + ev_length hv_24x7_layout) = Some 48"
    by (simp add: long_tail_table_def eval_rd)
  have f: "event_is_within hv_24x7_layout long_tail_table 4048 4096 =
      Some (True, [Warnx ''desc len not aligned %p''])"
    by (simp add: event_is_within_def long_tail_table_def eval_rd)
  have g: "event_is_within hv_24x7_layout long_tail_table 4048 (4048 + 48) =
      Some (True, [Warnx ''desc len not aligned %p''])"
    by (simp add: event_is_within_def long_tail_table_def eval_rd)
  have h: "event_long_desc hv_24x7_layout long_tail_table 4048 = Some (4088, 28)"
    by (simp add: event_long_desc_def size_t_minus2_def long_tail_table_def eval_rd)
  have i: "rd_bytes long_tail_table 4088 28 = None"
    by (simp add: rd_bytes_def long_tail_table_def)
  have k: "rd_u8 long_tail_table (4048 + ev_domain hv_24x7_layout) = Some 7"
    by (simp add: long_tail_table_def eval_rd)
  have l: "domain_to_string 7 1024 = Some (UnknownDomain 7)"
    by (simp add: domain_to_string_def domain_name_def
        HV_PERF_DOMAIN_PHYSICAL_CHIP_def
        HV_PERF_DOMAIN_PHYSICAL_CORE_def HV_PERF_DOMAIN_VIRTUAL_PROCESSOR_HOME_CORE_def
        HV_PERF_DOMAIN_VIRTUAL_PROCESSOR_HOME_CHIP_def
        HV_PERF_DOMAIN_VIRTUAL_PROCESSOR_HOME_NODE_def
        HV_PERF_DOMAIN_VIRTUAL_PROCESSOR_REMOTE_NODE_def)
  have j: "event_scan hv_24x7_layout verbose no_ctx 2 long_tail_table =
     \<lparr>final_i = 1,
      outputs = [PrDebug 10 ''invalid event, skipping'', EventComment 1 2 48 4048,
                 Warnx ''desc len not aligned %p'',
                 Warnx ''desc len not aligned %p'',
                 Warnx ''desc len not aligned %p'',
                 PrDebug 1 ''%s: start=%p + nl=%u + dl=%u + ldl=%u > end=%p'',
                 Warnx ''event crosses page boundary''],
      stop_reason = Undefined\<rparr>"
    by (simp add: event_scan_def eval_event event_desc_def event_long_desc_def
        primary_group_name_def domain_to_string_def domain_name_def
        rd_bytes_def verbose_def long_tail_table_def eval_rd)
  from a b c d e f g h i k l j show ?thesis by (intro conjI)
qed

end
